theory Spec2Isabelle
  imports Complex_Main "HOL-Library.AList"
begin

section \<open>JavaScript strings\<close>

text \<open>
  Paths, file contents and hashes are JavaScript strings, modelled as \<open>string\<close>.
  Only the string methods that LetsPack calls are modelled, each with the behaviour of the
  ECMAScript method of the same name on the arguments the code passes.
\<close>

definition slash :: char where
  "slash = CHR ''/''"

definition backslash :: char where
  "backslash = CHR 0x5C"

text \<open>\<open>s.lastIndexOf(c)\<close>: the index of the last occurrence of \<open>c\<close>, or \<open>-1\<close>.\<close>

fun lastIndexOf_from :: "char \<Rightarrow> string \<Rightarrow> int \<Rightarrow> int \<Rightarrow> int" where
  "lastIndexOf_from c [] i found = found"
| "lastIndexOf_from c (x # xs) i found =
     lastIndexOf_from c xs (i + 1) (if x = c then i else found)"

definition lastIndexOf :: "string \<Rightarrow> char \<Rightarrow> int" where
  "lastIndexOf s c = lastIndexOf_from c s 0 (- 1)"

text \<open>\<open>s.substring(i)\<close>: a start below zero counts as zero, one beyond the end gives \<open>""\<close>.\<close>

definition substring :: "string \<Rightarrow> int \<Rightarrow> string" where
  "substring s i = drop (nat i) s"

definition includes_str :: "string \<Rightarrow> char \<Rightarrow> bool" where
  "includes_str s c = (c \<in> set s)"

definition replaceAll :: "string \<Rightarrow> char \<Rightarrow> char \<Rightarrow> string" where
  "replaceAll s a b = map (\<lambda>x. if x = a then b else x) s"

definition endsWith :: "string \<Rightarrow> string \<Rightarrow> bool" where
  "endsWith s suffix =
     (length suffix \<le> length s \<and> drop (length s - length suffix) s = suffix)"

text \<open>
  The idiom \<open>p.substring(p.lastIndexOf("/") + 1)\<close>, which \<open>version\<close>, \<open>#download\<close> and
  \<open>#printSize\<close> all use to cut a name out of a path or a link.
\<close>

definition afterLastSlash :: "string \<Rightarrow> string" where
  "afterLastSlash p = substring p (lastIndexOf p slash + 1)"

text \<open>A template literal prints a missing property as \<open>undefined\<close>.\<close>

definition template :: "string option \<Rightarrow> string" where
  "template v = (case v of None \<Rightarrow> ''undefined'' | Some x \<Rightarrow> x)"

text \<open>Truthiness of a string-valued property: absent and \<open>""\<close> are falsy.\<close>

definition truthy :: "string option \<Rightarrow> bool" where
  "truthy v = (case v of None \<Rightarrow> False | Some x \<Rightarrow> x \<noteq> [])"


section \<open>Values, errors and the environment\<close>

text \<open>
  The first argument of \<open>scripts\<close> and \<open>styles\<close> is untyped in JavaScript. \<open>Arr\<close> is any
  value with \<open>Array.isArray\<close>, \<open>Str\<close> any value with \<open>typeof\<close> equal to \<open>"string"\<close>; every
  other value is one of the remaining constructors.
\<close>

datatype js_value =
    Arr "string list"
  | Str string
  | Undefined
  | Null
  | Number int
  | Boolean bool
  | Object

datatype error =
    Usage_error string      \<comment> \<open>\<open>Error("Uknown type for ...")\<close> thrown by LetsPack itself\<close>
  | ENOENT string           \<comment> \<open>a read, a listing, a stat or a hash of a path that does not exist\<close>
  | EACCES string           \<comment> \<open>a write that the file system refuses\<close>
  | Invalid_path            \<comment> \<open>\<open>md5(null)\<close>: the hash of no path at all\<close>
  | Invalid_URL string      \<comment> \<open>\<open>new URL(link)\<close> on a string that is no absolute URL\<close>
  | Minify_failure string   \<comment> \<open>terser rejects\<close>
  | Postcss_failure string  \<comment> \<open>postcss rejects\<close>
  | Type_error              \<comment> \<open>a method called on \<open>null\<close>\<close>

record url =
  protocol :: string
  pathname :: string

text \<open>
  The libraries LetsPack calls are not part of the repository. They are parameters of the
  model, with the contracts of section 6 of the specification: each is a function of its
  arguments. The last two fields are not libraries but the timing of the file system, which
  the program does not control: a theorem for every environment holds however the file
  system schedules its work.
\<close>

record env =
  resolve :: "string \<Rightarrow> string"
    \<comment> \<open>\<open>path.resolve\<close> against the working directory\<close>
  join :: "string \<Rightarrow> string \<Rightarrow> string"
    \<comment> \<open>\<open>path.join\<close>\<close>
  minify :: "(string \<times> string) list \<Rightarrow> error + string"
    \<comment> \<open>terser's \<open>minify(codes, terserConfig)\<close>, giving \<open>options.code\<close>\<close>
  postcss :: "string \<Rightarrow> string \<Rightarrow> string \<Rightarrow> error + string"
    \<comment> \<open>\<open>postcss([...]).process(css, {from, to})\<close>, giving \<open>result.css\<close>\<close>
  digest :: "string \<Rightarrow> string"
    \<comment> \<open>the MD5 digest that \<open>md5-file\<close> computes of a file's content\<close>
  new_URL :: "string \<Rightarrow> error + url"
    \<comment> \<open>the constructor \<open>new URL(link)\<close>, which throws on failure\<close>
  stringify :: "nat \<Rightarrow> (string \<times> string) list \<Rightarrow> string"
    \<comment> \<open>\<open>JSON.stringify(mix, null, indent)\<close> of an object with string values\<close>
  progress :: "string \<Rightarrow> string \<Rightarrow> nat option"
    \<comment> \<open>how far the file system has got with \<open>writeFile(path, data, ...)\<close> while its callback
        is pending: not started, or the number of bytes in the created or truncated file\<close>
  css_first :: bool
    \<comment> \<open>of two reads that both fail, whether the second one fails first\<close>


section \<open>The state: one LetsPack instance and the world around it\<close>

datatype size_report = Byte nat | Kb rat | Mb rat

text \<open>
  What the program prints. \<open>Log_size name r\<close> is the line \<open>name\<close>, a tab, the value and the
  unit; \<open>Log_error\<close> is \<open>console.log(err)\<close> and \<open>Console_error\<close> is \<open>console.error(err)\<close>.
\<close>

datatype console_msg =
    Log_size string size_report
  | Log_error error
  | Console_error error

text \<open>
  \<open>outputFiles_js\<close> and \<open>outputFiles_css\<close> are the two slots of the field \<open>outputFiles\<close>, both
  \<open>null\<close> in a new instance. \<open>files\<close> and \<open>listing\<close> are the file system, keyed by resolved
  path: \<open>files\<close> is what a read of a path returns and \<open>listing\<close> what \<open>readdirSync\<close> returns. A
  write changes \<open>files\<close> only; a theorem that lists a directory after a write takes the
  listing of that moment as a hypothesis. \<open>unwritable\<close> are the paths at which a write fails. \<open>requests\<close> are the GET requests
  sent so far, each with the logical name its response will be stored under. \<open>unhandled\<close>
  collects what nobody catches: rejected promises without a handler and exceptions thrown
  inside a callback.
\<close>

record state =
  outputFiles_js :: "string option"
  outputFiles_css :: "string option"
  files :: "string \<rightharpoonup> string"
  listing :: "string \<rightharpoonup> string list"
  unwritable :: "string set"
  requests :: "(string \<times> string) list"
  console :: "console_msg list"
  unhandled :: "error list"

definition readFileSync :: "env \<Rightarrow> state \<Rightarrow> string \<Rightarrow> error + string" where
  "readFileSync env s file =
     (case files s (resolve env file) of
        None \<Rightarrow> Inl (ENOENT file)
      | Some content \<Rightarrow> Inr content)"

definition readdirSync :: "env \<Rightarrow> state \<Rightarrow> string \<Rightarrow> error + string list" where
  "readdirSync env s dirName =
     (case listing s (resolve env dirName) of
        None \<Rightarrow> Inl (ENOENT dirName)
      | Some entries \<Rightarrow> Inr entries)"

text \<open>\<open>md5(path)\<close> of \<open>md5-file\<close>: a promise of the digest of the file's content.\<close>

definition md5 :: "env \<Rightarrow> state \<Rightarrow> string option \<Rightarrow> error + string" where
  "md5 env s path =
     (case path of
        None \<Rightarrow> Inl Invalid_path
      | Some p \<Rightarrow>
          (case files s (resolve env p) of
             None \<Rightarrow> Inl (ENOENT p)
           | Some content \<Rightarrow> Inr (digest env content)))"


section \<open>Size report\<close>

text \<open>
  \<open>round\<close> of \<open>#printSize\<close> (src/src/letsPack.js:185) shifts the decimal point two places
  with the exponent notation, applies \<open>Math.round\<close> and shifts back. \<open>Math.round\<close> rounds
  halves up, as \<open>round\<close> of HOL does. Sizes are divided by powers of two, which is exact on
  the numbers of JavaScript, so the quotient is modelled as a rational; the hundredths of
  the quotient are multiples of \<open>1 / 2 ^ 18\<close>, which the double precision numbers tell apart
  for every size below \<open>2 ^ 48\<close> bytes.
\<close>

definition round2 :: "rat \<Rightarrow> rat" where
  "round2 x = of_int (round (x * 100)) / 100"

text \<open>The three branches of src/src/letsPack.js:186-194 on \<open>stats.size\<close>.\<close>

definition sizeReport :: "nat \<Rightarrow> size_report" where
  "sizeReport n =
     (if n < 1024 then Byte n
      else if n < 1048576 then Kb (round2 (of_nat n / 1024))
      else Mb (round2 (of_nat n / 1048576)))"

text \<open>
  The printed name (src/src/letsPack.js:178-183): the part after the last slash, a colon,
  and blanks up to the next multiple of eight characters.
\<close>

definition paddedName :: "string \<Rightarrow> string" where
  "paddedName name =
     (let n = afterLastSlash name @ '':'';
          m = length n mod 8;
          indent = (if m > 0 then 8 - m else 0)
      in n @ replicate indent CHR '' '')"


section \<open>Work in flight\<close>

text \<open>
  Everything after the synchronous part of an operation happens in callbacks. A \<open>task\<close> is
  one callback that has been handed to the runtime and has not run yet; running it changes
  the state and may hand over further callbacks.
\<close>

datatype slot = Js | Css

definition outputFiles :: "state \<Rightarrow> slot \<Rightarrow> string option" where
  "outputFiles s k = (case k of Js \<Rightarrow> outputFiles_js s | Css \<Rightarrow> outputFiles_css s)"

text \<open>
  The three callbacks given to \<open>writeFile\<close>:
  \<^item> \<open>Report_always k\<close>, src/src/letsPack.js:63-66 and 99-102: print the error if there is
    one, then call \<open>#printSize\<close> with the slot \<open>k\<close> as it is by then;
  \<^item> \<open>Report_on_success name\<close>, \<open>#writeToFile\<close> of src/unnamed/part_001:429-434: print the
    error and stop, otherwise call \<open>#printSize\<close> with the name given at the call;
  \<^item> \<open>No_report\<close>, the manifest (src/src/letsPack.js:138-140, and \<open>#writeToFile\<close> with
    \<open>printSize = false\<close>): print the error if there is one.
\<close>

datatype write_cont =
    Report_always slot
  | Report_on_success "string option"
  | No_report

datatype task =
    Minify_then "(string \<times> string) list" string
      \<comment> \<open>src/src/letsPack.js:62, \<open>minify(codes, terserConfig).then(...)\<close> with \<open>output\<close>\<close>
  | ReadFile_cb string string
      \<comment> \<open>src/src/letsPack.js:88, \<open>fs.readFile(style, ...)\<close> with \<open>output\<close>\<close>
  | Postcss_then string string string
      \<comment> \<open>src/src/letsPack.js:93-104, \<open>process(css, {from, to}).then(...).catch(...)\<close>\<close>
  | ReadFile_cb_async string string
      \<comment> \<open>src/unnamed/part_001:279, \<open>readFile(style, async ...)\<close> with \<open>output\<close>\<close>
  | Postcss_await string string string
      \<comment> \<open>src/unnamed/part_001:284-298, \<open>await\<close> of \<open>process\<close> inside \<open>try\<close>\<close>
  | WriteFile_cb string string write_cont
      \<comment> \<open>\<open>writeFile(path, data, ...)\<close>\<close>
  | Stat_cb string "string option"
      \<comment> \<open>\<open>stat(file, ...)\<close> of \<open>#printSize(file, name)\<close>\<close>
  | Hashes_then
      \<comment> \<open>src/src/letsPack.js:115-118, \<open>Promise.all([js, css]).then(...)\<close>\<close>
  | Hashes_then_part001
      \<comment> \<open>src/unnamed/part_001:557-560, the same in the revision of lines 438-673\<close>

definition console_log :: "console_msg \<Rightarrow> state \<Rightarrow> state" where
  "console_log m s = s\<lparr>console := console s @ [m]\<rparr>"

definition reject_unhandled :: "error \<Rightarrow> state \<Rightarrow> state" where
  "reject_unhandled e s = s\<lparr>unhandled := unhandled s @ [e]\<rparr>"

text \<open>
  \<open>writeFile(path, data, callback)\<close> returns at once, and from then on the file system works
  on the destination: it creates or truncates the file and then writes the data. What a
  read finds there while the callback is pending is the old file as long as the write has
  not started, and otherwise the bytes written so far. A write that will fail touches
  nothing.
\<close>

definition writeFile_started :: "env \<Rightarrow> string \<Rightarrow> string \<Rightarrow> state \<Rightarrow> state" where
  "writeFile_started env path data s =
     (if resolve env path \<in> unwritable s then s
      else case progress env path data of
             None \<Rightarrow> s
           | Some n \<Rightarrow> s\<lparr>files := (files s)(resolve env path \<mapsto> take n data)\<rparr>)"

text \<open>What \<open>writeFile\<close> has done to the file system when it calls back.\<close>

definition writeFile :: "env \<Rightarrow> string \<Rightarrow> string \<Rightarrow> state \<Rightarrow> error + state" where
  "writeFile env path data s =
     (if resolve env path \<in> unwritable s then Inl (EACCES path)
      else Inr (s\<lparr>files := (files s)(resolve env path \<mapsto> data)\<rparr>))"

definition writeFile_cb :: "env \<Rightarrow> string \<Rightarrow> string \<Rightarrow> write_cont \<Rightarrow> state \<Rightarrow> state \<times> task list" where
  "writeFile_cb env path data cont s =
     (case writeFile env path data s of
        Inl err \<Rightarrow>
          (case cont of
             Report_always k \<Rightarrow>
               (console_log (Log_error err) s, [Stat_cb path (outputFiles s k)])
           | Report_on_success name \<Rightarrow> (console_log (Log_error err) s, [])
           | No_report \<Rightarrow> (console_log (Log_error err) s, []))
      | Inr s' \<Rightarrow>
          (case cont of
             Report_always k \<Rightarrow> (s', [Stat_cb path (outputFiles s' k)])
           | Report_on_success name \<Rightarrow> (s', [Stat_cb path name])
           | No_report \<Rightarrow> (s', [])))"

text \<open>
  The callback of \<open>stat\<close> in \<open>#printSize\<close> (src/src/letsPack.js:174-195). The size of a
  file is the length of its content. A \<open>name\<close> that is \<open>null\<close> makes \<open>name.substring\<close> throw
  inside the callback.
\<close>

definition printSize_cb :: "env \<Rightarrow> string \<Rightarrow> string option \<Rightarrow> state \<Rightarrow> state" where
  "printSize_cb env file name s =
     (case files s (resolve env file) of
        None \<Rightarrow> console_log (Console_error (ENOENT file)) s
      | Some content \<Rightarrow>
          (case name of
             None \<Rightarrow> reject_unhandled Type_error s
           | Some n \<Rightarrow> console_log (Log_size (paddedName n) (sizeReport (length content))) s))"


section \<open>The manifest\<close>

text \<open>
  The two promises of \<open>version\<close> resolve to \<open>{js: hash}\<close> and \<open>{css: hash}\<close>; \<open>result.js\<close>
  of the second and \<open>result.css\<close> of the first are \<open>undefined\<close>.
\<close>

datatype hash_result = Result_js string | Result_css string

definition result_js :: "hash_result \<Rightarrow> string option" where
  "result_js r = (case r of Result_js h \<Rightarrow> Some h | Result_css h \<Rightarrow> None)"

definition result_css :: "hash_result \<Rightarrow> string option" where
  "result_css r = (case r of Result_js h \<Rightarrow> None | Result_css h \<Rightarrow> Some h)"

text \<open>
  The body of \<open>results.forEach\<close>, src/src/letsPack.js:121-133. The object \<open>mix\<close> is an
  association list in insertion order; an assignment to a key replaces the value in place
  or appends the key.
\<close>

definition mixEntry ::
  "string \<Rightarrow> string \<Rightarrow> hash_result \<Rightarrow> (string \<times> string) list \<Rightarrow> (string \<times> string) list" where
  "mixEntry jsPath cssPath result mix =
     (let filePath0 = (if truthy (result_js result) then jsPath else cssPath);
          filePath = (if includes_str filePath0 backslash
                      then replaceAll filePath0 backslash slash else filePath0);
          fileName = afterLastSlash filePath
      in if truthy (result_js result)
         then AList.update (''/js/'' @ fileName)
                (fileName @ ''?id='' @ template (result_js result)) mix
         else AList.update (''/css/'' @ fileName)
                (fileName @ ''?id='' @ template (result_css result)) mix)"

text \<open>The same body in src/unnamed/part_001:563-575, where the values carry the directory.\<close>

definition mixEntry_part001 ::
  "string \<Rightarrow> string \<Rightarrow> hash_result \<Rightarrow> (string \<times> string) list \<Rightarrow> (string \<times> string) list" where
  "mixEntry_part001 jsPath cssPath result mix =
     (let filePath0 = (if truthy (result_js result) then jsPath else cssPath);
          filePath = (if includes_str filePath0 backslash
                      then replaceAll filePath0 backslash slash else filePath0);
          fileName = afterLastSlash filePath
      in if truthy (result_js result)
         then AList.update (''/js/'' @ fileName)
                (''/js/'' @ fileName @ ''?id='' @ template (result_js result)) mix
         else AList.update (''/css/'' @ fileName)
                (''/css/'' @ fileName @ ''?id='' @ template (result_css result)) mix)"

definition manifestPath :: string where
  "manifestPath = ''public/mix-manifest.json''"

text \<open>
  \<open>version\<close> starts both hashes at once, and \<open>Promise.all\<close> rejects with the rejection that
  comes first. The hash of \<open>null\<close> is rejected at the call, before any read of a file can
  fail; of two reads that both fail, the file system decides which fails first.
\<close>

definition first_rejection ::
  "env \<Rightarrow> string option \<Rightarrow> string option \<Rightarrow> error \<Rightarrow> error \<Rightarrow> error" where
  "first_rejection env jsPath cssPath e1 e2 =
     (if jsPath = None then e1
      else if cssPath = None then e2
      else if css_first env then e2 else e1)"

text \<open>
  The callback of \<open>Promise.all([js, css]).then\<close> in \<open>version\<close>. It runs when both hashes are
  there; when one of the two promises rejects, nothing handles the rejection.
\<close>

definition hashes_then ::
  "(string \<Rightarrow> string \<Rightarrow> hash_result \<Rightarrow> (string \<times> string) list \<Rightarrow> (string \<times> string) list) \<Rightarrow>
   nat \<Rightarrow> env \<Rightarrow> state \<Rightarrow> state \<times> task list" where
  "hashes_then entry indent env s =
     (case md5 env s (outputFiles_js s) of
        Inl e1 \<Rightarrow>
          (case md5 env s (outputFiles_css s) of
             Inl e2 \<Rightarrow>
               (reject_unhandled
                  (first_rejection env (outputFiles_js s) (outputFiles_css s) e1 e2) s, [])
           | Inr h2 \<Rightarrow> (reject_unhandled e1 s, []))
      | Inr h1 \<Rightarrow>
          (case md5 env s (outputFiles_css s) of
             Inl e2 \<Rightarrow> (reject_unhandled e2 s, [])
           | Inr h2 \<Rightarrow>
               (case (outputFiles_js s, outputFiles_css s) of
                  (Some jsPath, Some cssPath) \<Rightarrow>
                    (writeFile_started env (resolve env manifestPath)
                       (stringify env indent
                          (fold (entry jsPath cssPath) [Result_js h1, Result_css h2] [])) s,
                     [WriteFile_cb (resolve env manifestPath)
                        (stringify env indent
                           (fold (entry jsPath cssPath) [Result_js h1, Result_css h2] []))
                        No_report])
                | _ \<Rightarrow> (reject_unhandled Type_error s, []))))"


section \<open>The event loop\<close>

definition step :: "env \<Rightarrow> task \<Rightarrow> state \<Rightarrow> state \<times> task list" where
  "step env t s =
     (case t of
        Minify_then codes output \<Rightarrow>
          (case minify env codes of
             Inl e \<Rightarrow> (reject_unhandled e s, [])
           | Inr code \<Rightarrow>
               (writeFile_started env output code s,
                [WriteFile_cb output code (Report_always Js)]))
      | ReadFile_cb style output \<Rightarrow>
          (case files s (resolve env style) of
             None \<Rightarrow> (console_log (Console_error (ENOENT style)) s, [])
           | Some css \<Rightarrow> (s, [Postcss_then css style output]))
      | Postcss_then css from to \<Rightarrow>
          (case postcss env css from to of
             Inl e \<Rightarrow> (console_log (Console_error e) s, [])
           | Inr result \<Rightarrow>
               (writeFile_started env to result s,
                [WriteFile_cb to result (Report_always Css)]))
      | ReadFile_cb_async style output \<Rightarrow>
          (case files s (resolve env style) of
             None \<Rightarrow> (console_log (Console_error (ENOENT style)) s, [])
           | Some css \<Rightarrow> (s, [Postcss_await css style output]))
      | Postcss_await css from to \<Rightarrow>
          (case postcss env css from to of
             Inl e \<Rightarrow> (console_log (Console_error e) s, [])
           | Inr result \<Rightarrow>
               (writeFile_started env to result s,
                [WriteFile_cb to result (Report_on_success (outputFiles_css s))]))
      | WriteFile_cb path data cont \<Rightarrow> writeFile_cb env path data cont s
      | Stat_cb file name \<Rightarrow> (printSize_cb env file name s, [])
      | Hashes_then \<Rightarrow> hashes_then mixEntry 0 env s
      | Hashes_then_part001 \<Rightarrow> hashes_then mixEntry_part001 4 env s)"

text \<open>
  A callback hands over at most one further callback, of a later stage. The stages bound
  the work that a queue of callbacks can still cause.
\<close>

fun stage :: "task \<Rightarrow> nat" where
  "stage (Minify_then codes output) = 3"
| "stage (ReadFile_cb style output) = 4"
| "stage (Postcss_then css from to) = 3"
| "stage (ReadFile_cb_async style output) = 4"
| "stage (Postcss_await css from to) = 3"
| "stage (WriteFile_cb path data cont) = 2"
| "stage (Stat_cb file name) = 1"
| "stage Hashes_then = 3"
| "stage Hashes_then_part001 = 3"

text \<open>The loop takes the callbacks in the order in which they were handed over.\<close>

function run :: "env \<Rightarrow> task list \<Rightarrow> state \<Rightarrow> state" where
  "run env [] s = s"
| "run env (t # ts) s = run env (ts @ snd (step env t s)) (fst (step env t s))"
  by pat_completeness auto
termination
proof (relation "measure (\<lambda>(env, ts, s). sum_list (map stage ts))")
  show "wf (measure (\<lambda>(env, ts, s). sum_list (map stage ts)))"
    by simp
next
  fix env t ts s
  have "sum_list (map stage (snd (step env t s))) < stage t"
    by (cases t)
       (auto simp: step_def writeFile_cb_def hashes_then_def
             split: sum.splits option.splits write_cont.splits)
  then show "((env, ts @ snd (step env t s), fst (step env t s)), (env, t # ts, s))
          \<in> measure (\<lambda>(env, ts, s). sum_list (map stage ts))"
    by simp
qed


section \<open>The operations of src/src/letsPack.js\<close>

text \<open>
  A call either returns or throws, and it leaves callbacks behind: the result of an
  operation is the outcome of the call, the state when the call is over, and the callbacks
  handed over during the call.
\<close>

datatype outcome = Returned | Threw error

text \<open>\<open>#readFiles\<close>, src/src/letsPack.js:162-166, with the callback \<open>cb\<close> of \<open>scripts\<close>.\<close>

fun readFiles ::
  "env \<Rightarrow> state \<Rightarrow> string list \<Rightarrow> (string \<times> string) list \<Rightarrow> error + (string \<times> string) list" where
  "readFiles env s [] codes = Inr codes"
| "readFiles env s (fileName # rest) codes =
     (case readFileSync env s fileName of
        Inl e \<Rightarrow> Inl e
      | Inr content \<Rightarrow> readFiles env s rest (AList.update fileName content codes))"

text \<open>\<open>#readDirectoryFiles\<close>, src/src/letsPack.js:150-155.\<close>

definition readDirectoryFiles ::
  "env \<Rightarrow> state \<Rightarrow> string \<Rightarrow> (string \<times> string) list \<Rightarrow> error + (string \<times> string) list" where
  "readDirectoryFiles env s dirName codes =
     (case readdirSync env s dirName of
        Inl e \<Rightarrow> Inl e
      | Inr entries \<Rightarrow> readFiles env s (map (join env dirName) entries) codes)"

text \<open>
  The branches of \<open>scripts\<close> on its first argument, src/src/letsPack.js:50-60, which fill
  \<open>codes\<close> or throw.
\<close>

definition readSources :: "env \<Rightarrow> state \<Rightarrow> js_value \<Rightarrow> error + (string \<times> string) list" where
  "readSources env s src =
     (case src of
        Arr list \<Rightarrow> readFiles env s (map (resolve env) list) []
      | Str dir \<Rightarrow> readDirectoryFiles env s (resolve env dir) []
      | _ \<Rightarrow> Inl (Usage_error ''Uknown type for 'scripts'!''))"

text \<open>\<open>scripts\<close>, src/src/letsPack.js:40-70.\<close>

definition scripts :: "env \<Rightarrow> js_value \<Rightarrow> string \<Rightarrow> state \<Rightarrow> outcome \<times> state \<times> task list" where
  "scripts env src output s =
     (let s1 = s\<lparr>outputFiles_js := Some output\<rparr>;
          out = resolve env output
      in case readSources env s1 src of
           Inl e \<Rightarrow> (Threw e, s1, [])
         | Inr codes \<Rightarrow> (Returned, s1, [Minify_then codes out]))"

text \<open>\<open>styles\<close>, src/src/letsPack.js:79-108.\<close>

definition styles :: "env \<Rightarrow> js_value \<Rightarrow> string \<Rightarrow> state \<Rightarrow> outcome \<times> state \<times> task list" where
  "styles env style output s =
     (let s1 = s\<lparr>outputFiles_css := Some output\<rparr>;
          out = resolve env output
      in case style of
           Str file \<Rightarrow> (Returned, s1, [ReadFile_cb (resolve env file) out])
         | _ \<Rightarrow> (Threw (Usage_error ''Uknown type for 'styles'!''), s1, []))"

text \<open>
  \<open>version\<close>, src/src/letsPack.js:114-143. Both calls of \<open>md5\<close> return a promise, also for
  \<open>null\<close>; the hashes are read when the promises settle.
\<close>

definition version :: "env \<Rightarrow> state \<Rightarrow> outcome \<times> state \<times> task list" where
  "version env s = (Returned, s, [Hashes_then])"

text \<open>\<open>version\<close> in the revision of src/unnamed/part_001:556-585.\<close>

definition version_part001 :: "env \<Rightarrow> state \<Rightarrow> outcome \<times> state \<times> task list" where
  "version_part001 env s = (Returned, s, [Hashes_then_part001])"

text \<open>An operation together with all the callbacks it causes.\<close>

definition complete :: "env \<Rightarrow> outcome \<times> state \<times> task list \<Rightarrow> state" where
  "complete env r = run env (snd (snd r)) (fst (snd r))"


section \<open>The operations of the asynchronous revision, src/unnamed/part_001:193-437\<close>

text \<open>
  An \<open>async\<close> method returns a promise. Its result in the model is how that promise
  settles, the state at that moment, and the callbacks that are in flight at that moment.
\<close>

datatype promise = Fulfilled | Rejected error

text \<open>
  \<open>#isURL\<close>, src/unnamed/part_001:370-377: the body of \<open>try\<close>, where \<open>new URL\<close> may throw,
  and the method with its \<open>catch\<close>.
\<close>

definition isURL_try :: "env \<Rightarrow> string \<Rightarrow> error + bool" where
  "isURL_try env link =
     (case new_URL env link of
        Inl e \<Rightarrow> Inl e
      | Inr u \<Rightarrow> Inr (protocol u \<noteq> [] \<and> ''https:'' = protocol u))"

definition isURL :: "env \<Rightarrow> string \<Rightarrow> error + bool" where
  "isURL env link =
     (case isURL_try env link of
        Inl e \<Rightarrow> Inr False
      | Inr b \<Rightarrow> Inr b)"

text \<open>\<open>#isURL\<close> in the revision of src/unnamed/part_001:617-624, with the conditional.\<close>

definition isURL_try_part001 :: "env \<Rightarrow> string \<Rightarrow> error + bool" where
  "isURL_try_part001 env link =
     (case new_URL env link of
        Inl e \<Rightarrow> Inl e
      | Inr u \<Rightarrow> Inr (if protocol u \<noteq> [] then ''https:'' = protocol u else False))"

definition isURL_part001 :: "env \<Rightarrow> string \<Rightarrow> error + bool" where
  "isURL_part001 env link =
     (case isURL_try_part001 env link of
        Inl e \<Rightarrow> Inr False
      | Inr b \<Rightarrow> Inr b)"

text \<open>
  \<open>#download\<close>, src/unnamed/part_001:384-391: the request is sent, and the response will be
  stored under \<open>name\<close>.
\<close>

definition download :: "string \<Rightarrow> state \<Rightarrow> state" where
  "download file s = s\<lparr>requests := requests s @ [(file, afterLastSlash file)]\<rparr>"

text \<open>
  \<open>#readFiles\<close>, src/unnamed/part_001:357-363. A failing read ends the loop; the requests
  sent before it stay sent.
\<close>

fun readFiles_async ::
  "env \<Rightarrow> string list \<Rightarrow> (string \<times> string) list \<Rightarrow> state \<Rightarrow>
   (error + (string \<times> string) list) \<times> state" where
  "readFiles_async env [] codes s = (Inr codes, s)"
| "readFiles_async env (file # rest) codes s =
     (case isURL env file of
        Inl e \<Rightarrow> (Inl e, s)
      | Inr True \<Rightarrow> readFiles_async env rest codes (download file s)
      | Inr False \<Rightarrow>
          (case readFileSync env s file of
             Inl e \<Rightarrow> (Inl e, s)
           | Inr content \<Rightarrow>
               readFiles_async env rest (AList.update (resolve env file) content codes) s))"

text \<open>\<open>#readDirectoryFiles\<close>, src/unnamed/part_001:345-350.\<close>

definition readDirectoryFiles_async ::
  "env \<Rightarrow> string \<Rightarrow> (string \<times> string) list \<Rightarrow> state \<Rightarrow>
   (error + (string \<times> string) list) \<times> state" where
  "readDirectoryFiles_async env dirName codes s =
     (case readdirSync env s dirName of
        Inl e \<Rightarrow> (Inl e, s)
      | Inr entries \<Rightarrow> readFiles_async env (map (join env dirName) entries) codes s)"

text \<open>
  \<open>scripts\<close> from \<open>await minify\<close> on, src/unnamed/part_001:257-260: \<open>#writeToFile\<close> hands the
  write to the file system and returns, and \<open>return this\<close> fulfils the promise. The state
  at that moment is the one in which the write has started and has not called back.
\<close>

definition scripts_await ::
  "env \<Rightarrow> (string \<times> string) list \<Rightarrow> string \<Rightarrow> state \<Rightarrow> promise \<times> state \<times> task list" where
  "scripts_await env codes out s =
     (case minify env codes of
        Inl e \<Rightarrow> (Rejected e, s, [])
      | Inr code \<Rightarrow>
          (Fulfilled, writeFile_started env out code s,
           [WriteFile_cb out code (Report_on_success (outputFiles_js s))]))"

text \<open>
  The branches of \<open>scripts\<close> on its first argument, src/unnamed/part_001:248-255, which fill
  \<open>codes\<close> and send requests, or throw.
\<close>

definition readSources_async ::
  "env \<Rightarrow> js_value \<Rightarrow> state \<Rightarrow> (error + (string \<times> string) list) \<times> state" where
  "readSources_async env src s =
     (case src of
        Arr list \<Rightarrow> readFiles_async env list [] s
      | Str dir \<Rightarrow> readDirectoryFiles_async env (resolve env dir) [] s
      | _ \<Rightarrow> (Inl (Usage_error ''Uknown type for 'scripts'!''), s))"

text \<open>\<open>scripts\<close>, src/unnamed/part_001:235-261.\<close>

definition scripts_async ::
  "env \<Rightarrow> js_value \<Rightarrow> string \<Rightarrow> state \<Rightarrow> promise \<times> state \<times> task list" where
  "scripts_async env src output s =
     (let s1 = s\<lparr>outputFiles_js := Some output\<rparr>;
          out = resolve env output
      in case readSources_async env src s1 of
           (Inl e, s2) \<Rightarrow> (Rejected e, s2, [])
         | (Inr codes, s2) \<Rightarrow> scripts_await env codes out s2)"

text \<open>\<open>styles\<close>, src/unnamed/part_001:270-302.\<close>

definition styles_async ::
  "env \<Rightarrow> js_value \<Rightarrow> string \<Rightarrow> state \<Rightarrow> promise \<times> state \<times> task list" where
  "styles_async env style output s =
     (case style of
        Str file \<Rightarrow>
          (Fulfilled, s\<lparr>outputFiles_css := Some output\<rparr>,
           [ReadFile_cb_async (resolve env file) (resolve env output)])
      | _ \<Rightarrow> (Rejected (Usage_error ''Uknown type for 'styles'!''), s, []))"

text \<open>\<open>processFile\<close> of \<open>version\<close>, src/unnamed/part_001:315-327.\<close>

definition processFile ::
  "string \<Rightarrow> string \<Rightarrow> string \<Rightarrow> (string \<times> string) list \<Rightarrow> (string \<times> string) list" where
  "processFile js css filePath0 mix =
     (let filePath = (if includes_str filePath0 backslash
                      then replaceAll filePath0 backslash slash else filePath0);
          fileName = afterLastSlash filePath
      in if endsWith fileName ''.js''
         then AList.update (''/js/'' @ fileName) (''/js/'' @ fileName @ ''?id='' @ js) mix
         else AList.update (''/css/'' @ fileName) (''/css/'' @ fileName @ ''?id='' @ css) mix)"

text \<open>\<open>version\<close>, src/unnamed/part_001:308-338.\<close>

definition version_async :: "env \<Rightarrow> state \<Rightarrow> promise \<times> state \<times> task list" where
  "version_async env s =
     (case md5 env s (outputFiles_js s) of
        Inl e \<Rightarrow> (Rejected e, s, [])
      | Inr js \<Rightarrow>
          (case md5 env s (outputFiles_css s) of
             Inl e \<Rightarrow> (Rejected e, s, [])
           | Inr css \<Rightarrow>
               (case (outputFiles_js s, outputFiles_css s) of
                  (Some jsPath, Some cssPath) \<Rightarrow>
                    (Fulfilled,
                     writeFile_started env (resolve env manifestPath)
                       (stringify env 4
                          (processFile js css cssPath (processFile js css jsPath []))) s,
                     [WriteFile_cb (resolve env manifestPath)
                        (stringify env 4
                           (processFile js css cssPath (processFile js css jsPath [])))
                        No_report])
                | _ \<Rightarrow> (Rejected Type_error, s, []))))"


section \<open>Specification vocabulary\<close>

text \<open>\<open>v\<close> is \<open>x\<close> rounded to two decimal places: a number of hundredths nearest to \<open>x\<close>.\<close>

definition rounded_2dp :: "rat \<Rightarrow> rat \<Rightarrow> bool" where
  "rounded_2dp v x = ((\<exists>k::int. v = of_int k / 100) \<and> \<bar>v - x\<bar> \<le> 1 / 200)"

text \<open>The final segment of the path of a parsed URL.\<close>

definition finalPathSegment :: "url \<Rightarrow> string" where
  "finalPathSegment u = afterLastSlash (pathname u)"

text \<open>
  An entry of the list is fetched when \<open>#isURL\<close> accepts it, and readable when the file
  system has a file at its path.
\<close>

definition fetched :: "env \<Rightarrow> string \<Rightarrow> bool" where
  "fetched env f = (isURL env f = Inr True)"

definition readable :: "env \<Rightarrow> state \<Rightarrow> string \<Rightarrow> bool" where
  "readable env s f = (files s (resolve env f) \<noteq> None)"

text \<open>The resolved paths that \<open>scripts\<close> of src/src/letsPack.js reads for a source.\<close>

definition sourcePaths :: "env \<Rightarrow> state \<Rightarrow> js_value \<Rightarrow> string list" where
  "sourcePaths env s src =
     (case src of
        Arr list \<Rightarrow> map (\<lambda>f. resolve env (resolve env f)) list
      | Str dir \<Rightarrow>
          (case listing s (resolve env (resolve env dir)) of
             None \<Rightarrow> []
           | Some entries \<Rightarrow> map (\<lambda>e. resolve env (join env (resolve env dir) e)) entries)
      | _ \<Rightarrow> [])"


section \<open>A concrete environment\<close>

text \<open>
  One environment and a few states on which the operations can be evaluated. The working
  directory is \<open>/work\<close>; the minifier concatenates, the style transform is the identity;
  the digests are those of MD5 for the contents \<open>a\<close> and \<open>b\<close>; the URL parser knows three
  links and parses them as the URL standard does; a write has not started when the code
  that handed it over goes on.
\<close>

definition sample_resolve :: "string \<Rightarrow> string" where
  "sample_resolve p = (if take 1 p = ''/'' then p else ''/work/'' @ p)"

definition sample_digest :: "string \<Rightarrow> string" where
  "sample_digest content =
     (if content = ''a'' then ''0cc175b9c0f1b6a831c399e269772661''
      else if content = ''b'' then ''92eb5ffee6ae2fec3ad71c777531578f''
      else ''d41d8cd98f00b204e9800998ecf8427e'')"

definition sample_new_URL :: "string \<Rightarrow> error + url" where
  "sample_new_URL link =
     (if link = ''https://cdn.example.com/lib.js?v=2''
      then Inr \<lparr>protocol = ''https:'', pathname = ''/lib.js''\<rparr>
      else if link = ''https://cdn.example.com/lib.js''
      then Inr \<lparr>protocol = ''https:'', pathname = ''/lib.js''\<rparr>
      else if link = ''http://cdn.example.com/lib.js''
      then Inr \<lparr>protocol = ''http:'', pathname = ''/lib.js''\<rparr>
      else Inl (Invalid_URL link))"

definition sample_stringify :: "nat \<Rightarrow> (string \<times> string) list \<Rightarrow> string" where
  "sample_stringify indent mix =
     ''{'' @ concat (map (\<lambda>(k, v). replicate indent CHR '' '' @ k @ '': '' @ v @ '';'') mix) @ ''}''"

definition sample_env :: env where
  "sample_env =
     \<lparr>resolve = sample_resolve,
      join = (\<lambda>dir file. dir @ ''/'' @ file),
      minify = (\<lambda>codes. Inr (concat (map snd codes))),
      postcss = (\<lambda>css from to. Inr css),
      digest = sample_digest,
      new_URL = sample_new_URL,
      stringify = sample_stringify,
      progress = (\<lambda>path data. None),
      css_first = False\<rparr>"


text \<open>A new instance in a project with two scripts and one style sheet.\<close>

definition new_instance :: state where
  "new_instance =
     \<lparr>outputFiles_js = None,
      outputFiles_css = None,
      files = [''/work/src/a.js'' \<mapsto> ''a'', ''/work/src/b.js'' \<mapsto> ''b'',
               ''/work/css/site.css'' \<mapsto> ''b''],
      listing = [''/work/src'' \<mapsto> [''a.js'', ''b.js'']],
      unwritable = {},
      requests = [],
      console = [],
      unhandled = []\<rparr>"

text \<open>An instance after both bundles were written, with the contents \<open>a\<close> and \<open>b\<close>.\<close>

definition packed_instance :: state where
  "packed_instance =
     \<lparr>outputFiles_js = Some ''dist/app.min.js'',
      outputFiles_css = Some ''dist/app.min.css'',
      files = [''/work/dist/app.min.js'' \<mapsto> ''a'', ''/work/dist/app.min.css'' \<mapsto> ''b''],
      listing = Map.empty,
      unwritable = {},
      requests = [],
      console = [],
      unhandled = []\<rparr>"

text \<open>An instance whose script bundle has exactly 1024 bytes.\<close>

definition kibibyte_instance :: state where
  "kibibyte_instance =
     \<lparr>outputFiles_js = Some ''dist/app.min.js'',
      outputFiles_css = None,
      files = [''/work/dist/app.min.js'' \<mapsto> replicate 1024 CHR ''x''],
      listing = Map.empty,
      unwritable = {},
      requests = [],
      console = [],
      unhandled = []\<rparr>"


section \<open>Running callbacks\<close>

text \<open>
  The equations of \<open>run\<close> are applied one callback at a time, through the lemmas below.
\<close>

declare run.simps [simp del]

lemma run_step: "step env t s = (s', ts) \<Longrightarrow> run env [t] s = run env ts s'"
  by (simp add: run.simps)

text \<open>
  A write in flight touches the destination only, and when it calls back the file system is
  the one a write from the state before would have left.
\<close>

lemma writeFile_started_frame [simp]:
  "listing (writeFile_started env path data s) = listing s"
  "unwritable (writeFile_started env path data s) = unwritable s"
  "outputFiles_js (writeFile_started env path data s) = outputFiles_js s"
  "outputFiles_css (writeFile_started env path data s) = outputFiles_css s"
  "requests (writeFile_started env path data s) = requests s"
  "console (writeFile_started env path data s) = console s"
  "unhandled (writeFile_started env path data s) = unhandled s"
  by (simp_all add: writeFile_started_def split: option.splits)

lemma files_writeFile_started:
  "files (writeFile_started env path data s) =
     (if resolve env path \<in> unwritable s then files s
      else case progress env path data of
             None \<Rightarrow> files s
           | Some n \<Rightarrow> (files s)(resolve env path \<mapsto> take n data))"
  by (simp add: writeFile_started_def split: option.splits)

lemma writeFile_started_elsewhere:
  "p \<noteq> resolve env path \<Longrightarrow> files (writeFile_started env path data s) p = files s p"
  by (simp add: writeFile_started_def split: option.splits)


lemma writeFile_after_started:
  "writeFile env path data (writeFile_started env path data s) = writeFile env path data s"
  by (simp add: writeFile_def writeFile_started_def split: option.splits)

lemma run_write_no_report_started:
  assumes "resolve env path \<notin> unwritable s"
  shows "run env [WriteFile_cb path data No_report] (writeFile_started env path data s)
           = s\<lparr>files := (files s)(resolve env path \<mapsto> data)\<rparr>"
proof -
  have "writeFile env path data (writeFile_started env path data s)
          = Inr (s\<lparr>files := (files s)(resolve env path \<mapsto> data)\<rparr>)"
    using assms unfolding writeFile_after_started by (simp add: writeFile_def)
  then have "step env (WriteFile_cb path data No_report) (writeFile_started env path data s)
          = (s\<lparr>files := (files s)(resolve env path \<mapsto> data)\<rparr>, [])"
    by (simp add: step_def writeFile_cb_def)
  then show ?thesis
    by (simp add: run_step run.simps(1))
qed


lemma files_printSize_cb: "files (printSize_cb env file name s) = files s"
  by (simp add: printSize_cb_def console_log_def reject_unhandled_def split: option.splits)

lemma step_frame:
  "listing (fst (step env t s)) = listing s \<and> unwritable (fst (step env t s)) = unwritable s"
  by (cases t)
     (auto simp: step_def writeFile_cb_def writeFile_def hashes_then_def printSize_cb_def
                 console_log_def reject_unhandled_def
           split: sum.splits option.splits write_cont.splits)

lemma run_frame:
  "listing (run env ts s) = listing s \<and> unwritable (run env ts s) = unwritable s"
  by (induction env ts s rule: run.induct) (simp_all add: run.simps step_frame)

lemma run_stat: "run env [Stat_cb file name] s = printSize_cb env file name s"
  by (simp add: run_step [of env _ _ "printSize_cb env file name s" "[]"] step_def run.simps(1))


section \<open>Size report: the thresholds\<close>

lemma round2_rounded: "rounded_2dp (round2 x) x"
proof -
  have "\<bar>of_int (round (x * 100)) - x * 100\<bar> \<le> 1 / 2"
    by (rule of_int_round_abs_le)
  then have "\<bar>(of_int (round (x * 100)) - x * 100) / 100\<bar> \<le> (1 / 2) / 100"
    by (simp only: abs_divide) (simp add: divide_le_cancel)
  then have "\<bar>round2 x - x\<bar> \<le> 1 / 200"
    by (simp add: round2_def diff_divide_distrib)
  moreover have "\<exists>k::int. round2 x = of_int k / 100"
    by (auto simp: round2_def)
  ultimately show ?thesis
    by (simp add: rounded_2dp_def)
qed

lemma sizeReport_cases:
  "(case sizeReport n of
      Byte b \<Rightarrow> n < 1024 \<and> b = n
    | Kb v \<Rightarrow> 1024 \<le> n \<and> n < 1048576 \<and> rounded_2dp v (of_nat n / 1024)
    | Mb v \<Rightarrow> 1048576 \<le> n \<and> rounded_2dp v (of_nat n / 1048576))"
  by (simp add: sizeReport_def round2_rounded)

text \<open>The last size of each unit and the first of the next.\<close>

lemma sizeReport_boundaries:
  "sizeReport 1023 = Byte 1023 \<and> sizeReport 1024 = Kb 1 \<and>
   sizeReport 1048575 = Kb 1024 \<and> sizeReport 1048576 = Mb 1"
proof -
  have "round (26214375 / 256 :: rat) = 102400"
    by code_simp
  then show ?thesis
    by (simp add: sizeReport_def round2_def)
qed

text \<open>
  Claim C6. When \<open>stat\<close> finds the written file, \<open>#printSize\<close> prints one line with the
  padded name and a report \<open>r\<close> of the size \<open>n\<close> of the file. The report is a byte count
  only when \<open>n < 1024\<close>, and then it is \<open>n\<close> itself; it is in kibibytes only when
  \<open>1024 \<le> n < 1048576\<close>, and then it is \<open>n / 1024\<close> rounded to two decimal places; it is in
  mebibytes only when \<open>1048576 \<le> n\<close>, and then it is \<open>n / 1048576\<close> rounded to two decimal
  places. The three conditions exclude each other, so each size has the unit the claim
  gives it: 1024 bytes are reported in kibibytes and 1048576 bytes in mebibytes.
\<close>

theorem printSize_classifies:
  assumes "files s (resolve env file) = Some content"
  shows "\<exists>r. printSize_cb env file (Some name) s
               = console_log (Log_size (paddedName name) r) s \<and>
     (case r of
        Byte b \<Rightarrow> length content < 1024 \<and> b = length content
      | Kb v \<Rightarrow> 1024 \<le> length content \<and> length content < 1048576 \<and>
          rounded_2dp v (of_nat (length content) / 1024)
      | Mb v \<Rightarrow> 1048576 \<le> length content \<and>
          rounded_2dp v (of_nat (length content) / 1048576))"
proof -
  have "printSize_cb env file (Some name) s =
      console_log (Log_size (paddedName name) (sizeReport (length content))) s"
    using assms by (simp add: printSize_cb_def)
  then show ?thesis
    using sizeReport_cases [of "length content"] by blast
qed

text \<open>A bundle of exactly 1024 bytes: the report is in kibibytes.\<close>

theorem printSize_classifies_witness:
  "files kibibyte_instance (resolve sample_env ''/work/dist/app.min.js'')
     = Some (replicate 1024 CHR ''x'') \<and>
   (\<exists>r. printSize_cb sample_env ''/work/dist/app.min.js'' (Some ''dist/app.min.js'')
           kibibyte_instance
          = console_log (Log_size (paddedName ''dist/app.min.js'') r) kibibyte_instance \<and>
        (case r of Byte b \<Rightarrow> False | Kb v \<Rightarrow> rounded_2dp v 1 | Mb v \<Rightarrow> False))"
proof -
  let ?c = "replicate 1024 CHR ''x''"
  have f: "files kibibyte_instance (resolve sample_env ''/work/dist/app.min.js'') = Some ?c"
    by (simp add: kibibyte_instance_def sample_env_def sample_resolve_def)
  from printSize_classifies [OF f, of "''dist/app.min.js''"] obtain r where
    r: "printSize_cb sample_env ''/work/dist/app.min.js'' (Some ''dist/app.min.js'')
          kibibyte_instance
          = console_log (Log_size (paddedName ''dist/app.min.js'') r) kibibyte_instance"
    and c: "(case r of
        Byte b \<Rightarrow> length ?c < 1024 \<and> b = length ?c
      | Kb v \<Rightarrow> 1024 \<le> length ?c \<and> length ?c < 1048576 \<and>
          rounded_2dp v (of_nat (length ?c) / 1024)
      | Mb v \<Rightarrow> 1048576 \<le> length ?c \<and> rounded_2dp v (of_nat (length ?c) / 1048576))"
    by blast
  from c have "(case r of Byte b \<Rightarrow> False | Kb v \<Rightarrow> rounded_2dp v 1 | Mb v \<Rightarrow> False)"
    by (cases r) simp_all
  with f r show ?thesis by blast
qed


section \<open>Usage errors of src/src/letsPack.js\<close>

text \<open>
  Claim C5. When the source given to \<open>scripts\<close> is neither an array nor a string, the call
  itself throws the usage error, and what it leaves does not depend on any file: the state
  of the call with the slot assigned, and no callback. So no callback has been handed over,
  nothing was requested from the network or printed, and the file system is as before.
\<close>

theorem scripts_usage_error:
  assumes "\<forall>list. src \<noteq> Arr list" and "\<forall>dir. src \<noteq> Str dir"
  shows "scripts env src output s
           = (Threw (Usage_error ''Uknown type for 'scripts'!''),
              s\<lparr>outputFiles_js := Some output\<rparr>, []) \<and>
         fst (scripts env src output s) = Threw (Usage_error ''Uknown type for 'scripts'!'') \<and>
         snd (snd (scripts env src output s)) = [] \<and>
         files (fst (snd (scripts env src output s))) = files s \<and>
         listing (fst (snd (scripts env src output s))) = listing s \<and>
         requests (fst (snd (scripts env src output s))) = requests s \<and>
         console (fst (snd (scripts env src output s))) = console s \<and>
         unhandled (fst (snd (scripts env src output s))) = unhandled s"
  using assms by (cases src) (simp_all add: scripts_def readSources_def)

theorem scripts_usage_error_witness:
  "(\<forall>list. Number 3 \<noteq> Arr list) \<and> (\<forall>dir. Number 3 \<noteq> Str dir) \<and>
   fst (scripts sample_env (Number 3) ''dist/app.min.js'' new_instance)
     = Threw (Usage_error ''Uknown type for 'scripts'!'') \<and>
   snd (snd (scripts sample_env (Number 3) ''dist/app.min.js'' new_instance)) = [] \<and>
   requests (fst (snd (scripts sample_env (Number 3) ''dist/app.min.js'' new_instance))) = [] \<and>
   console (fst (snd (scripts sample_env (Number 3) ''dist/app.min.js'' new_instance))) = []"
  using scripts_usage_error [of "Number 3" sample_env "''dist/app.min.js''" new_instance]
  by (simp add: new_instance_def)

text \<open>
  Claim C8. Whenever \<open>scripts\<close> throws the usage error, the state it leaves is the state of
  the call with \<open>outputFiles.js\<close> set to the given output path; and the same holds for
  \<open>styles\<close> and \<open>outputFiles.css\<close>.
\<close>

theorem usage_error_sets_slot:
  "(scripts env src output s = (Threw (Usage_error m), s', ts) \<longrightarrow>
      outputFiles_js s' = Some output \<and> s' = s\<lparr>outputFiles_js := Some output\<rparr>) \<and>
   (styles env style output s = (Threw (Usage_error m), t', ts') \<longrightarrow>
      outputFiles_css t' = Some output \<and> t' = s\<lparr>outputFiles_css := Some output\<rparr>)"
  by (auto simp: scripts_def styles_def Let_def split: js_value.splits sum.splits)

text \<open>\<open>scripts\<close> given \<open>undefined\<close> and \<open>styles\<close> given an array, on a new instance.\<close>

theorem usage_error_sets_slot_witness:
  "scripts sample_env Undefined ''dist/app.min.js'' new_instance
     = (Threw (Usage_error ''Uknown type for 'scripts'!''),
        new_instance\<lparr>outputFiles_js := Some ''dist/app.min.js''\<rparr>, []) \<and>
   styles sample_env (Arr [''css/site.css'']) ''dist/app.min.css'' new_instance
     = (Threw (Usage_error ''Uknown type for 'styles'!''),
        new_instance\<lparr>outputFiles_css := Some ''dist/app.min.css''\<rparr>, []) \<and>
   outputFiles_js new_instance = None \<and>
   outputFiles_js (new_instance\<lparr>outputFiles_js := Some ''dist/app.min.js''\<rparr>)
     = Some ''dist/app.min.js'' \<and>
   outputFiles_css new_instance = None \<and>
   outputFiles_css (new_instance\<lparr>outputFiles_css := Some ''dist/app.min.css''\<rparr>)
     = Some ''dist/app.min.css''"
proof -
  have a: "scripts sample_env Undefined ''dist/app.min.js'' new_instance
     = (Threw (Usage_error ''Uknown type for 'scripts'!''),
        new_instance\<lparr>outputFiles_js := Some ''dist/app.min.js''\<rparr>, [])"
    by (simp add: scripts_def readSources_def)
  have b: "styles sample_env (Arr [''css/site.css'']) ''dist/app.min.css'' new_instance
     = (Threw (Usage_error ''Uknown type for 'styles'!''),
        new_instance\<lparr>outputFiles_css := Some ''dist/app.min.css''\<rparr>, [])"
    by (simp add: styles_def)
  have n: "outputFiles_js new_instance = None \<and> outputFiles_css new_instance = None"
    by (simp add: new_instance_def)
  from a b n
    usage_error_sets_slot [of sample_env Undefined "''dist/app.min.js''" new_instance
      "''Uknown type for 'scripts'!''"
      "new_instance\<lparr>outputFiles_js := Some ''dist/app.min.js''\<rparr>" "[]"]
    usage_error_sets_slot [of sample_env _ "''dist/app.min.css''" new_instance
      "''Uknown type for 'styles'!''" _ _ "Arr [''css/site.css'']"
      "new_instance\<lparr>outputFiles_css := Some ''dist/app.min.css''\<rparr>" "[]"]
  show ?thesis by simp
qed


text \<open>
  The asynchronous revision differs in both respects. Its methods are \<open>async\<close>, so the usage
  error rejects the returned promise instead of being thrown by the call; and its \<open>styles\<close>
  checks the type before it assigns the slot (src/unnamed/part_001:271-275).
\<close>

lemma scripts_async_usage_error:
  assumes "\<forall>list. src \<noteq> Arr list" and "\<forall>dir. src \<noteq> Str dir"
  shows "scripts_async env src output s =
     (Rejected (Usage_error ''Uknown type for 'scripts'!''),
      s\<lparr>outputFiles_js := Some output\<rparr>, [])"
  using assms by (cases src) (simp_all add: scripts_async_def readSources_async_def)

lemma styles_async_usage_error:
  assumes "\<forall>entry. style \<noteq> Str entry"
  shows "styles_async env style output s =
     (Rejected (Usage_error ''Uknown type for 'styles'!''), s, [])"
  using assms by (cases style) (simp_all add: styles_async_def)


section \<open>Recognising URLs\<close>

text \<open>
  Claim C10. For every string, \<open>#isURL\<close> returns a boolean and never throws, in both
  revisions that have it; the boolean is true exactly when \<open>new URL\<close> accepts the string
  and the protocol of the result is \<open>https:\<close>.
\<close>

theorem isURL_total:
  "\<exists>b. isURL env link = Inr b \<and> isURL_part001 env link = Inr b \<and>
       b = (\<exists>u. new_URL env link = Inr u \<and> protocol u = ''https:'')"
  by (cases "new_URL env link")
     (auto simp: isURL_def isURL_try_def isURL_part001_def isURL_try_part001_def)

text \<open>A secure link, an insecure link and a relative path.\<close>

lemma isURL_samples:
  "isURL sample_env ''https://cdn.example.com/lib.js'' = Inr True \<and>
   isURL sample_env ''http://cdn.example.com/lib.js'' = Inr False \<and>
   isURL sample_env ''src/a.js'' = Inr False"
  by (simp add: isURL_def isURL_try_def sample_env_def sample_new_URL_def)


section \<open>The registry under \<open>version\<close>\<close>

lemma step_outputFiles:
  "outputFiles_js (fst (step env t s)) = outputFiles_js s \<and>
   outputFiles_css (fst (step env t s)) = outputFiles_css s"
  by (cases t)
     (auto simp: step_def writeFile_cb_def writeFile_def hashes_then_def printSize_cb_def
                 console_log_def reject_unhandled_def
           split: sum.splits option.splits write_cont.splits)

lemma run_outputFiles:
  "outputFiles_js (run env ts s) = outputFiles_js s \<and>
   outputFiles_css (run env ts s) = outputFiles_css s"
  by (induction env ts s rule: run.induct) (simp_all add: run.simps step_outputFiles)

text \<open>
  Claim C9. \<open>version\<close> leaves both slots of \<open>outputFiles\<close> as they were, whatever the state
  and the environment are, and so whether the hashes and the write of the manifest succeed
  or fail: in src/src/letsPack.js after the call and all its callbacks, and in the
  asynchronous revision both when the promise settles and after the callbacks then in
  flight.
\<close>

theorem version_keeps_registry:
  "outputFiles_js (complete env (version env s)) = outputFiles_js s \<and>
   outputFiles_css (complete env (version env s)) = outputFiles_css s \<and>
   outputFiles_js (fst (snd (version_async env s))) = outputFiles_js s \<and>
   outputFiles_css (fst (snd (version_async env s))) = outputFiles_css s \<and>
   outputFiles_js (run env (snd (snd (version_async env s))) (fst (snd (version_async env s))))
     = outputFiles_js s \<and>
   outputFiles_css (run env (snd (snd (version_async env s))) (fst (snd (version_async env s))))
     = outputFiles_css s"
proof -
  have "outputFiles_js (fst (snd (version_async env s))) = outputFiles_js s \<and>
        outputFiles_css (fst (snd (version_async env s))) = outputFiles_css s"
    by (simp add: version_async_def split: sum.splits option.splits)
  then show ?thesis
    by (simp add: complete_def version_def run_outputFiles)
qed


section \<open>Names cut out of paths\<close>

lemma lastIndexOf_from_absent:
  "c \<notin> set xs \<Longrightarrow> lastIndexOf_from c xs i found = found"
  by (induction xs arbitrary: i found) auto

lemma lastIndexOf_from_last:
  "c \<notin> set ys \<Longrightarrow> lastIndexOf_from c (xs @ c # ys) i found = i + int (length xs)"
  by (induction xs arbitrary: i found) (simp_all add: lastIndexOf_from_absent)

text \<open>
  \<open>afterLastSlash\<close> is the base name: a path without a slash is its own name, and the name
  of a path with a slash is what follows the last one.
\<close>

lemma afterLastSlash_plain: "slash \<notin> set p \<Longrightarrow> afterLastSlash p = p"
  by (simp add: afterLastSlash_def lastIndexOf_def substring_def lastIndexOf_from_absent)

lemma afterLastSlash_append:
  assumes "slash \<notin> set name"
  shows "afterLastSlash (dir @ slash # name) = name"
proof -
  have "nat (int (length dir) + 1) = Suc (length dir)"
    by simp
  then show ?thesis
    using assms
    by (simp add: afterLastSlash_def lastIndexOf_def substring_def lastIndexOf_from_last)
qed


section \<open>The manifest that \<open>version\<close> writes\<close>

lemma replaceAll_absent: "a \<notin> set p \<Longrightarrow> replaceAll p a b = p"
  by (induction p) (auto simp: replaceAll_def)

text \<open>The test for a backslash before \<open>replaceAll\<close> changes nothing.\<close>

lemma replaceAll_guard:
  "(if includes_str p a then replaceAll p a b else p) = replaceAll p a b"
  by (simp add: includes_str_def replaceAll_absent)

lemma mixEntry_fold:
  assumes "h1 \<noteq> []"
  shows "mixEntry jsPath cssPath (Result_css h2) (mixEntry jsPath cssPath (Result_js h1) []) =
     [(''/js/'' @ afterLastSlash (replaceAll jsPath backslash slash),
       afterLastSlash (replaceAll jsPath backslash slash) @ ''?id='' @ h1),
      (''/css/'' @ afterLastSlash (replaceAll cssPath backslash slash),
       afterLastSlash (replaceAll cssPath backslash slash) @ ''?id='' @ h2)]"
  using assms
  by (simp add: mixEntry_def replaceAll_guard truthy_def result_js_def result_css_def
                template_def Let_def)

lemma mixEntry_part001_fold:
  assumes "h1 \<noteq> []"
  shows "mixEntry_part001 jsPath cssPath (Result_css h2)
           (mixEntry_part001 jsPath cssPath (Result_js h1) []) =
     [(''/js/'' @ afterLastSlash (replaceAll jsPath backslash slash),
       ''/js/'' @ afterLastSlash (replaceAll jsPath backslash slash) @ ''?id='' @ h1),
      (''/css/'' @ afterLastSlash (replaceAll cssPath backslash slash),
       ''/css/'' @ afterLastSlash (replaceAll cssPath backslash slash) @ ''?id='' @ h2)]"
  using assms
  by (simp add: mixEntry_part001_def replaceAll_guard truthy_def result_js_def result_css_def
                template_def Let_def)

lemma hashes_then_write:
  assumes "md5 env s (outputFiles_js s) = Inr h1" and "md5 env s (outputFiles_css s) = Inr h2"
    and "outputFiles_js s = Some jsPath" and "outputFiles_css s = Some cssPath"
  shows "hashes_then entry indent env s =
     (writeFile_started env (resolve env manifestPath)
        (stringify env indent (fold (entry jsPath cssPath) [Result_js h1, Result_css h2] [])) s,
      [WriteFile_cb (resolve env manifestPath)
         (stringify env indent (fold (entry jsPath cssPath) [Result_js h1, Result_css h2] []))
         No_report])"
  using assms by (simp add: hashes_then_def)

text \<open>
  The revision of src/unnamed/part_001:556-585 writes the manifest of the specification:
  with both hashes there (an MD5 digest is never empty) and the manifest writable, the file
  at \<open>public/mix-manifest.json\<close> becomes the JSON text of the two entries, each value being
  its key followed by \<open>?id=\<close> and the hash, and nothing else changes.
\<close>

lemma version_part001_manifest:
  assumes "outputFiles_js s = Some jsPath" and "outputFiles_css s = Some cssPath"
    and "md5 env s (Some jsPath) = Inr h1" and "md5 env s (Some cssPath) = Inr h2"
    and "h1 \<noteq> []"
    and "resolve env (resolve env manifestPath) \<notin> unwritable s"
  shows "complete env (version_part001 env s) =
     s\<lparr>files := (files s)(resolve env (resolve env manifestPath) \<mapsto>
          stringify env 4
            [(''/js/'' @ afterLastSlash (replaceAll jsPath backslash slash),
              ''/js/'' @ afterLastSlash (replaceAll jsPath backslash slash) @ ''?id='' @ h1),
             (''/css/'' @ afterLastSlash (replaceAll cssPath backslash slash),
              ''/css/'' @ afterLastSlash (replaceAll cssPath backslash slash) @ ''?id='' @ h2)])\<rparr>"
proof -
  let ?mix = "fold (mixEntry_part001 jsPath cssPath) [Result_js h1, Result_css h2] []"
  have "step env Hashes_then_part001 s =
     (writeFile_started env (resolve env manifestPath) (stringify env 4 ?mix) s,
      [WriteFile_cb (resolve env manifestPath) (stringify env 4 ?mix) No_report])"
    using assms by (simp add: step_def hashes_then_write)
  then have "run env [Hashes_then_part001] s =
      run env [WriteFile_cb (resolve env manifestPath) (stringify env 4 ?mix) No_report]
        (writeFile_started env (resolve env manifestPath) (stringify env 4 ?mix) s)"
    by (rule run_step)
  also have "\<dots> = s\<lparr>files := (files s)(resolve env (resolve env manifestPath) \<mapsto>
      stringify env 4 ?mix)\<rparr>"
    using assms(6) by (rule run_write_no_report_started)
  finally show ?thesis
    using assms(5) by (simp add: complete_def version_part001_def mixEntry_part001_fold)
qed

text \<open>
  src/src/letsPack.js:114-143 under the same conditions: the keys are the same, but each
  value is the bare file name followed by \<open>?id=\<close> and the hash.
\<close>

lemma version_manifest:
  assumes "outputFiles_js s = Some jsPath" and "outputFiles_css s = Some cssPath"
    and "md5 env s (Some jsPath) = Inr h1" and "md5 env s (Some cssPath) = Inr h2"
    and "h1 \<noteq> []"
    and "resolve env (resolve env manifestPath) \<notin> unwritable s"
  shows "complete env (version env s) =
     s\<lparr>files := (files s)(resolve env (resolve env manifestPath) \<mapsto>
          stringify env 0
            [(''/js/'' @ afterLastSlash (replaceAll jsPath backslash slash),
              afterLastSlash (replaceAll jsPath backslash slash) @ ''?id='' @ h1),
             (''/css/'' @ afterLastSlash (replaceAll cssPath backslash slash),
              afterLastSlash (replaceAll cssPath backslash slash) @ ''?id='' @ h2)])\<rparr>"
proof -
  let ?mix = "fold (mixEntry jsPath cssPath) [Result_js h1, Result_css h2] []"
  have "step env Hashes_then s =
     (writeFile_started env (resolve env manifestPath) (stringify env 0 ?mix) s,
      [WriteFile_cb (resolve env manifestPath) (stringify env 0 ?mix) No_report])"
    using assms by (simp add: step_def hashes_then_write)
  then have "run env [Hashes_then] s =
      run env [WriteFile_cb (resolve env manifestPath) (stringify env 0 ?mix) No_report]
        (writeFile_started env (resolve env manifestPath) (stringify env 0 ?mix) s)"
    by (rule run_step)
  also have "\<dots> = s\<lparr>files := (files s)(resolve env (resolve env manifestPath) \<mapsto>
      stringify env 0 ?mix)\<rparr>"
    using assms(6) by (rule run_write_no_report_started)
  finally show ?thesis
    using assms(5) by (simp add: complete_def version_def mixEntry_fold)
qed

lemma packed_instance_facts:
  "outputFiles_js packed_instance = Some ''dist/app.min.js'' \<and>
   outputFiles_css packed_instance = Some ''dist/app.min.css'' \<and>
   md5 sample_env packed_instance (Some ''dist/app.min.js'')
     = Inr ''0cc175b9c0f1b6a831c399e269772661'' \<and>
   md5 sample_env packed_instance (Some ''dist/app.min.css'')
     = Inr ''92eb5ffee6ae2fec3ad71c777531578f'' \<and>
   resolve sample_env (resolve sample_env manifestPath) = ''/work/public/mix-manifest.json'' \<and>
   unwritable packed_instance = {}"
  by (simp add: packed_instance_def md5_def sample_env_def sample_resolve_def sample_digest_def
                manifestPath_def)

lemma packed_instance_names:
  "afterLastSlash (replaceAll ''dist/app.min.js'' backslash slash) = ''app.min.js'' \<and>
   afterLastSlash (replaceAll ''dist/app.min.css'' backslash slash) = ''app.min.css''"
  by (simp add: afterLastSlash_def replaceAll_def lastIndexOf_def substring_def
                slash_def backslash_def)

text \<open>
  Claim C1. With \<open>dist/app.min.js\<close> and \<open>dist/app.min.css\<close> recorded and written, \<open>version\<close> of
  src/src/letsPack.js writes to \<open>public/mix-manifest.json\<close> the JSON text of a mapping with
  the keys of the claim, \<open>/js/app.min.js\<close> and \<open>/css/app.min.css\<close>, but with the values
  \<open>app.min.js?id=H1\<close> and \<open>app.min.css?id=H2\<close>: the directory that the claim puts in front of
  each value is missing.
\<close>

theorem version_manifest_values:
  "files (complete sample_env (version sample_env packed_instance))
       ''/work/public/mix-manifest.json''
     = Some (stringify sample_env 0
         [(''/js/app.min.js'', ''app.min.js?id=0cc175b9c0f1b6a831c399e269772661''),
          (''/css/app.min.css'', ''app.min.css?id=92eb5ffee6ae2fec3ad71c777531578f'')]) \<and>
   ''app.min.js?id=0cc175b9c0f1b6a831c399e269772661''
     \<noteq> ''/js/app.min.js?id=0cc175b9c0f1b6a831c399e269772661''"
proof -
  have "complete sample_env (version sample_env packed_instance) =
     packed_instance\<lparr>files := (files packed_instance)(''/work/public/mix-manifest.json'' \<mapsto>
          stringify sample_env 0
            [(''/js/app.min.js'', ''app.min.js?id=0cc175b9c0f1b6a831c399e269772661''),
             (''/css/app.min.css'', ''app.min.css?id=92eb5ffee6ae2fec3ad71c777531578f'')])\<rparr>"
    using version_manifest [of packed_instance "''dist/app.min.js''" "''dist/app.min.css''"
        sample_env "''0cc175b9c0f1b6a831c399e269772661''" "''92eb5ffee6ae2fec3ad71c777531578f''"]
      packed_instance_facts packed_instance_names
    by simp
  then show ?thesis by simp
qed


section \<open>\<open>version\<close> without its inputs\<close>







section \<open>Sources of \<open>scripts\<close> in the asynchronous revision\<close>

lemma isURL_bool: "isURL env link = Inr True \<or> isURL env link = Inr False"
  by (cases "new_URL env link") (auto simp: isURL_def isURL_try_def)

lemma files_download: "files (download f s) = files s"
  by (simp add: download_def)

lemma readFileSync_download: "readFileSync env (download f s) g = readFileSync env s g"
  by (simp add: readFileSync_def files_download)

lemma readFiles_async_state:
  "snd (readFiles_async env list codes s) =
     s\<lparr>requests := requests s @ map (\<lambda>f. (f, afterLastSlash f))
        (filter (fetched env) (takeWhile (\<lambda>f. fetched env f \<or> readable env s f) list))\<rparr>"
proof (induction list arbitrary: codes s)
  case Nil
  then show ?case by simp
next
  case (Cons f list)
  show ?case
  proof (cases "fetched env f")
    case True
    have r: "readable env (download f s) = readable env s"
      by (simp add: readable_def fun_eq_iff files_download)
    from True show ?thesis
      by (simp add: Cons.IH fetched_def r) (simp add: download_def)
  next
    case False
    then have u: "isURL env f = Inr False"
      using isURL_bool [of env f] by (simp add: fetched_def)
    show ?thesis
      using False u
      by (cases "files s (resolve env f)")
         (simp_all add: Cons.IH readFileSync_def readable_def)
  qed
qed

lemma readFiles_async_result:
  "(case fst (readFiles_async env list codes s) of
      Inl e \<Rightarrow> \<exists>f\<in>set list. \<not> fetched env f \<and> \<not> readable env s f \<and> e = ENOENT f
    | Inr codes' \<Rightarrow>
        (\<forall>f\<in>set list. fetched env f \<or> readable env s f) \<and>
        map_of codes' = (\<lambda>k. if k \<in> resolve env ` {f \<in> set list. \<not> fetched env f}
                              then files s k else map_of codes k))"
proof (induction list arbitrary: codes s)
  case Nil
  then show ?case by simp
next
  case (Cons f list)
  show ?case
  proof (cases "fetched env f")
    case True
    have r: "readable env (download f s) = readable env s"
      by (simp add: readable_def fun_eq_iff files_download)
    have eq: "{g \<in> set (f # list). \<not> fetched env g} = {g \<in> set list. \<not> fetched env g}"
      using True by auto
    from True have "readFiles_async env (f # list) codes s
        = readFiles_async env list codes (download f s)"
      by (simp add: fetched_def)
    then show ?thesis
      using Cons.IH [where codes = codes and s = "download f s"] True
      by (simp only: eq r files_download) (auto split: sum.splits)
  next
    case False
    then have u: "isURL env f = Inr False"
      using isURL_bool [of env f] by (simp add: fetched_def)
    show ?thesis
    proof (cases "files s (resolve env f)")
      case None
      then show ?thesis
        using False u by (simp add: readFileSync_def readable_def)
    next
      case (Some content)
      let ?codes = "AList.update (resolve env f) content codes"
      have eq: "{g \<in> set (f # list). \<not> fetched env g}
                  = insert f {g \<in> set list. \<not> fetched env g}"
        using False by auto
      have step: "readFiles_async env (f # list) codes s = readFiles_async env list ?codes s"
        using u Some by (simp add: readFileSync_def)
      have rd: "readable env s f"
        using Some by (simp add: readable_def)
      show ?thesis
        using Cons.IH [where codes = ?codes and s = s] Some rd
        by (simp only: step eq)
           (auto split: sum.splits simp: update_conv' fun_eq_iff)
    qed
  qed
qed

lemma scripts_async_Arr:
  "scripts_async env (Arr list) output s =
     (case fst (readFiles_async env list [] (s\<lparr>outputFiles_js := Some output\<rparr>)) of
        Inl e \<Rightarrow> (Rejected e, snd (readFiles_async env list [] (s\<lparr>outputFiles_js := Some output\<rparr>)), [])
      | Inr codes \<Rightarrow> scripts_await env codes (resolve env output)
          (snd (readFiles_async env list [] (s\<lparr>outputFiles_js := Some output\<rparr>))))"
  by (simp add: scripts_async_def readSources_async_def split: prod.splits sum.splits)

lemma scripts_await_requests:
  "requests (fst (snd (scripts_await env codes out s))) = requests s"
  by (simp add: scripts_await_def split: sum.splits)

lemma readable_slot: "readable env (s\<lparr>outputFiles_js := v\<rparr>) = readable env s"
  by (simp add: readable_def fun_eq_iff)

text \<open>
  Claim C2, as the code has it. \<open>scripts\<close> of src/unnamed/part_001:235-261 takes the entries
  of the list in order. An entry that \<open>#isURL\<close> accepts is requested from the network and
  never read from disk; the name kept for its response is what follows the last slash of
  the link as it was written. Every other entry is read as a local file and stored under
  its resolved path. The entries are taken up to the first one that is neither fetched nor
  readable: if there is none, all links of the list have been requested and \<open>codes\<close> maps the
  resolved path of each local entry to the content of its file, and nothing else; if there
  is one, the promise is rejected with the failure of that local read.
\<close>

theorem scripts_async_sources:
  "requests (fst (snd (scripts_async env (Arr list) output s))) =
      requests s @ map (\<lambda>f. (f, afterLastSlash f))
        (filter (fetched env) (takeWhile (\<lambda>f. fetched env f \<or> readable env s f) list)) \<and>
   (if \<forall>f\<in>set list. fetched env f \<or> readable env s f
    then \<exists>codes.
           map_of codes = (\<lambda>k. if k \<in> resolve env ` {f \<in> set list. \<not> fetched env f}
                                then files s k else None) \<and>
           scripts_async env (Arr list) output s =
             scripts_await env codes (resolve env output)
               (s\<lparr>outputFiles_js := Some output,
                  requests := requests s @ map (\<lambda>f. (f, afterLastSlash f))
                    (filter (fetched env) list)\<rparr>)
    else \<exists>f\<in>set list. \<not> fetched env f \<and> \<not> readable env s f \<and>
           fst (scripts_async env (Arr list) output s) = Rejected (ENOENT f))"
proof -
  let ?s1 = "s\<lparr>outputFiles_js := Some output\<rparr>"
  let ?r = "readFiles_async env list [] ?s1"
  let ?ok = "\<lambda>f. fetched env f \<or> readable env s f"
  have st: "snd ?r = ?s1\<lparr>requests := requests s @ map (\<lambda>f. (f, afterLastSlash f))
        (filter (fetched env) (takeWhile ?ok list))\<rparr>"
    using readFiles_async_state [where env = env and list = list and codes = "[]" and s = ?s1]
    by (simp add: readable_slot)
  have res: "(case fst ?r of
      Inl e \<Rightarrow> \<exists>f\<in>set list. \<not> fetched env f \<and> \<not> readable env s f \<and> e = ENOENT f
    | Inr codes' \<Rightarrow>
        (\<forall>f\<in>set list. ?ok f) \<and>
        map_of codes' = (\<lambda>k. if k \<in> resolve env ` {f \<in> set list. \<not> fetched env f}
                              then files s k else None))"
    using readFiles_async_result [where env = env and list = list and codes = "[]" and s = ?s1]
    by (simp add: readable_slot cong: sum.case_cong if_cong)
  have state: "requests (fst (snd (scripts_async env (Arr list) output s))) = requests (snd ?r)"
    by (simp add: scripts_async_Arr scripts_await_requests split: sum.splits)
  have first: "requests (fst (snd (scripts_async env (Arr list) output s))) =
      requests s @ map (\<lambda>f. (f, afterLastSlash f)) (filter (fetched env) (takeWhile ?ok list))"
    by (simp add: state st)
  show ?thesis
  proof (cases "fst ?r")
    case (Inl e)
    with res obtain f where f: "f \<in> set list" "\<not> fetched env f" "\<not> readable env s f" "e = ENOENT f"
      by auto
    then have "\<not> (\<forall>f\<in>set list. ?ok f)"
      by blast
    moreover have "fst (scripts_async env (Arr list) output s) = Rejected (ENOENT f)"
      using Inl f by (simp add: scripts_async_Arr)
    ultimately show ?thesis
      using first f by auto
  next
    case (Inr codes)
    with res have all: "\<forall>f\<in>set list. ?ok f"
      and m: "map_of codes = (\<lambda>k. if k \<in> resolve env ` {f \<in> set list. \<not> fetched env f}
                              then files s k else None)"
      by simp_all
    from all have tw: "takeWhile ?ok list = list"
      by (simp add: takeWhile_eq_all_conv)
    have "scripts_async env (Arr list) output s = scripts_await env codes (resolve env output)
               (s\<lparr>outputFiles_js := Some output,
                  requests := requests s @ map (\<lambda>f. (f, afterLastSlash f))
                    (filter (fetched env) list)\<rparr>)"
      using Inr st tw by (simp add: scripts_async_Arr)
    with m all first show ?thesis
      by auto
  qed
qed

text \<open>
  A list with a local script and a secure link, which is fulfilled, and a list with an
  insecure link, which is read from disk and fails there.
\<close>

lemma sample_fetched:
  "fetched sample_env ''https://cdn.example.com/lib.js?v=2'' \<and>
   \<not> fetched sample_env ''http://cdn.example.com/lib.js'' \<and>
   \<not> fetched sample_env ''src/a.js''"
  by (simp add: fetched_def isURL_def isURL_try_def sample_env_def sample_new_URL_def)

lemma sample_readable:
  "readable sample_env new_instance ''src/a.js'' \<and>
   \<not> readable sample_env new_instance ''http://cdn.example.com/lib.js''"
  by (simp add: readable_def new_instance_def sample_env_def sample_resolve_def)

lemma sample_minify: "fst (scripts_await sample_env codes out s) = Fulfilled"
  by (simp add: scripts_await_def sample_env_def)

theorem scripts_async_sources_witness:
  "readable sample_env new_instance ''src/a.js'' \<and>
   fetched sample_env ''https://cdn.example.com/lib.js?v=2'' \<and>
   requests (fst (snd (scripts_async sample_env
       (Arr [''src/a.js'', ''https://cdn.example.com/lib.js?v=2'']) ''dist/app.min.js''
       new_instance)))
     = [(''https://cdn.example.com/lib.js?v=2'', ''lib.js?v=2'')] \<and>
   fst (scripts_async sample_env
       (Arr [''src/a.js'', ''https://cdn.example.com/lib.js?v=2'']) ''dist/app.min.js''
       new_instance) = Fulfilled \<and>
   \<not> fetched sample_env ''http://cdn.example.com/lib.js'' \<and>
   \<not> readable sample_env new_instance ''http://cdn.example.com/lib.js'' \<and>
   fst (scripts_async sample_env (Arr [''http://cdn.example.com/lib.js'']) ''dist/app.min.js''
       new_instance) = Rejected (ENOENT ''http://cdn.example.com/lib.js'')"
proof -
  let ?L1 = "[''src/a.js'', ''https://cdn.example.com/lib.js?v=2'']"
  let ?L2 = "[''http://cdn.example.com/lib.js'']"
  have ok1: "\<forall>f\<in>set ?L1. fetched sample_env f \<or> readable sample_env new_instance f"
    using sample_fetched sample_readable by simp
  have ok2: "\<not> (\<forall>f\<in>set ?L2. fetched sample_env f \<or> readable sample_env new_instance f)"
    using sample_fetched sample_readable by simp
  have name: "afterLastSlash ''https://cdn.example.com/lib.js?v=2'' = ''lib.js?v=2''"
    by (simp add: afterLastSlash_def lastIndexOf_def substring_def slash_def)
  have req: "requests new_instance = []"
    by (simp add: new_instance_def)
  note t1 = scripts_async_sources [of sample_env ?L1 "''dist/app.min.js''" new_instance]
  note t2 = scripts_async_sources [of sample_env ?L2 "''dist/app.min.js''" new_instance]
  from t1 ok1 have r1: "requests (fst (snd (scripts_async sample_env (Arr ?L1) ''dist/app.min.js''
       new_instance))) = [(''https://cdn.example.com/lib.js?v=2'', ''lib.js?v=2'')]"
    using sample_fetched sample_readable name req by simp
  from t1 ok1 have f1: "fst (scripts_async sample_env (Arr ?L1) ''dist/app.min.js'' new_instance)
      = Fulfilled"
    by (auto simp: sample_minify simp del: set_simps)
  from t2 ok2 have f2: "fst (scripts_async sample_env (Arr ?L2) ''dist/app.min.js'' new_instance)
      = Rejected (ENOENT ''http://cdn.example.com/lib.js'')"
    by auto
  from r1 f1 f2 sample_fetched sample_readable show ?thesis
    by blast
qed

text \<open>
  \<open>scripts\<close> of src/src/letsPack.js has no such branch: it resolves every entry as a path
  and reads it from disk, and never sends a request.
\<close>

lemma scripts_sends_no_request:
  "requests (fst (snd (scripts env src output s))) = requests s"
  by (simp add: scripts_def Let_def split: sum.splits)

text \<open>
  Claim C2, as it is stated, names the response after the final path segment of the URL.
  For the link \<open>https://cdn.example.com/lib.js?v=2\<close> the path of the URL is \<open>/lib.js\<close> and
  its final segment is \<open>lib.js\<close>, but the name under which \<open>#download\<close> stores the response
  is \<open>lib.js?v=2\<close>.
\<close>

theorem download_name_counterexample:
  "new_URL sample_env ''https://cdn.example.com/lib.js?v=2''
     = Inr \<lparr>protocol = ''https:'', pathname = ''/lib.js''\<rparr> \<and>
   finalPathSegment \<lparr>protocol = ''https:'', pathname = ''/lib.js''\<rparr> = ''lib.js'' \<and>
   requests (fst (snd (scripts_async sample_env (Arr [''https://cdn.example.com/lib.js?v=2''])
       ''dist/app.min.js'' new_instance)))
     = [(''https://cdn.example.com/lib.js?v=2'', ''lib.js?v=2'')]"
  by (simp add: scripts_async_def readSources_async_def scripts_await_def isURL_def
        isURL_try_def download_def Let_def
        sample_env_def sample_new_URL_def new_instance_def finalPathSegment_def
        afterLastSlash_def lastIndexOf_def substring_def slash_def)


section \<open>When the promise of the asynchronous revision is fulfilled\<close>










section \<open>Bundling twice\<close>

text \<open>What a write with a size report leaves in the file system.\<close>

lemma run_write_always:
  "files (run env [WriteFile_cb path data (Report_always k)] s) =
     (if resolve env path \<in> unwritable s then files s
      else (files s)(resolve env path \<mapsto> data))"
proof (cases "resolve env path \<in> unwritable s")
  case True
  then have "step env (WriteFile_cb path data (Report_always k)) s
      = (console_log (Log_error (EACCES path)) s, [Stat_cb path (outputFiles s k)])"
    by (simp add: step_def writeFile_cb_def writeFile_def)
  then have "run env [WriteFile_cb path data (Report_always k)] s
      = run env [Stat_cb path (outputFiles s k)] (console_log (Log_error (EACCES path)) s)"
    by (rule run_step)
  then show ?thesis
    using True by (simp add: run_stat files_printSize_cb console_log_def)
next
  case False
  let ?s' = "s\<lparr>files := (files s)(resolve env path \<mapsto> data)\<rparr>"
  from False have "step env (WriteFile_cb path data (Report_always k)) s
      = (?s', [Stat_cb path (outputFiles ?s' k)])"
    by (simp add: step_def writeFile_cb_def writeFile_def)
  then have "run env [WriteFile_cb path data (Report_always k)] s
      = run env [Stat_cb path (outputFiles ?s' k)] ?s'"
    by (rule run_step)
  then show ?thesis
    using False by (simp add: run_stat files_printSize_cb)
qed

lemma run_write_always_started:
  "files (run env [WriteFile_cb path data (Report_always k)]
            (writeFile_started env path data s)) =
     (if resolve env path \<in> unwritable s then files s
      else (files s)(resolve env path \<mapsto> data))"
  by (simp add: run_write_always files_writeFile_started split: option.splits)

lemma run_minify:
  "files (run env [Minify_then codes out] s) =
     (case minify env codes of
        Inl e \<Rightarrow> files s
      | Inr code \<Rightarrow>
          if resolve env out \<in> unwritable s then files s
          else (files s)(resolve env out \<mapsto> code))"
proof (cases "minify env codes")
  case (Inl e)
  then have "step env (Minify_then codes out) s = (reject_unhandled e s, [])"
    by (simp add: step_def)
  then have "run env [Minify_then codes out] s = reject_unhandled e s"
    by (simp add: run_step run.simps(1))
  then show ?thesis
    using Inl by (simp add: reject_unhandled_def)
next
  case (Inr code)
  then have "step env (Minify_then codes out) s
      = (writeFile_started env out code s, [WriteFile_cb out code (Report_always Js)])"
    by (simp add: step_def)
  then have "run env [Minify_then codes out] s
      = run env [WriteFile_cb out code (Report_always Js)] (writeFile_started env out code s)"
    by (rule run_step)
  then show ?thesis
    using Inr by (simp add: run_write_always_started)
qed

lemma run_readFile:
  "files (run env [ReadFile_cb style out] s) =
     (case files s (resolve env style) of
        None \<Rightarrow> files s
      | Some css \<Rightarrow>
          (case postcss env css style out of
             Inl e \<Rightarrow> files s
           | Inr result \<Rightarrow>
               if resolve env out \<in> unwritable s then files s
               else (files s)(resolve env out \<mapsto> result)))"
proof (cases "files s (resolve env style)")
  case None
  then have "step env (ReadFile_cb style out) s
      = (console_log (Console_error (ENOENT style)) s, [])"
    by (simp add: step_def)
  then have "run env [ReadFile_cb style out] s = console_log (Console_error (ENOENT style)) s"
    by (simp add: run_step run.simps(1))
  then show ?thesis
    using None by (simp add: console_log_def)
next
  case (Some css)
  then have "step env (ReadFile_cb style out) s = (s, [Postcss_then css style out])"
    by (simp add: step_def)
  then have r: "run env [ReadFile_cb style out] s = run env [Postcss_then css style out] s"
    by (rule run_step)
  show ?thesis
  proof (cases "postcss env css style out")
    case (Inl e)
    then have "step env (Postcss_then css style out) s = (console_log (Console_error e) s, [])"
      by (simp add: step_def)
    then have "run env [Postcss_then css style out] s = console_log (Console_error e) s"
      by (simp add: run_step run.simps(1))
    then show ?thesis
      using Some Inl r by (simp add: console_log_def)
  next
    case (Inr result)
    then have "step env (Postcss_then css style out) s
        = (writeFile_started env out result s, [WriteFile_cb out result (Report_always Css)])"
      by (simp add: step_def)
    then have "run env [Postcss_then css style out] s
        = run env [WriteFile_cb out result (Report_always Css)]
            (writeFile_started env out result s)"
      by (rule run_step)
    then show ?thesis
      using Some Inr r by (simp add: run_write_always_started)
  qed
qed

lemma readFiles_cong:
  "\<forall>f\<in>set list. files s (resolve env f) = files t (resolve env f) \<Longrightarrow>
   readFiles env s list codes = readFiles env t list codes"
  by (induction list arbitrary: codes) (simp_all add: readFileSync_def split: option.splits)

lemma sourcePaths_cong: "listing s = listing t \<Longrightarrow> sourcePaths env s src = sourcePaths env t src"
  by (simp add: sourcePaths_def cong: js_value.case_cong)

lemma readSources_cong:
  assumes "listing s = listing t"
    and "\<forall>p\<in>set (sourcePaths env s src). files s p = files t p"
  shows "readSources env s src = readSources env t src"
proof (cases src)
  case (Arr list)
  with assms(2) have "\<forall>f\<in>set (map (resolve env) list).
      files s (resolve env f) = files t (resolve env f)"
    by (simp add: sourcePaths_def)
  then show ?thesis
    using Arr by (simp add: readSources_def readFiles_cong)
next
  case (Str dir)
  show ?thesis
  proof (cases "listing s (resolve env (resolve env dir))")
    case None
    then show ?thesis
      using Str assms(1) by (simp add: readSources_def readDirectoryFiles_def readdirSync_def)
  next
    case (Some entries)
    with assms(2) Str have "\<forall>f\<in>set (map (join env (resolve env dir)) entries).
        files s (resolve env f) = files t (resolve env f)"
      by (simp add: sourcePaths_def)
    then have "readFiles env s (map (join env (resolve env dir)) entries) []
        = readFiles env t (map (join env (resolve env dir)) entries) []"
      by (rule readFiles_cong)
    then show ?thesis
      using Str Some assms(1)
      by (simp add: readSources_def readDirectoryFiles_def readdirSync_def)
  qed
qed (simp_all add: readSources_def)

text \<open>The file system after \<open>scripts\<close> and all its callbacks.\<close>

lemma complete_scripts:
  "files (complete env (scripts env src output s)) =
     (case readSources env s src of
        Inl e \<Rightarrow> files s
      | Inr codes \<Rightarrow>
          (case minify env codes of
             Inl e \<Rightarrow> files s
           | Inr code \<Rightarrow>
               if resolve env (resolve env output) \<in> unwritable s then files s
               else (files s)(resolve env (resolve env output) \<mapsto> code)))"
proof -
  let ?s1 = "s\<lparr>outputFiles_js := Some output\<rparr>"
  have "readSources env ?s1 src = readSources env s src"
    by (rule readSources_cong) simp_all
  then show ?thesis
    by (simp add: complete_def scripts_def run.simps(1) run_minify split: sum.splits)
qed

lemma complete_styles:
  "files (complete env (styles env style output s)) =
     (case style of
        Str file \<Rightarrow>
          (case files s (resolve env (resolve env file)) of
             None \<Rightarrow> files s
           | Some css \<Rightarrow>
               (case postcss env css (resolve env file) (resolve env output) of
                  Inl e \<Rightarrow> files s
                | Inr result \<Rightarrow>
                    if resolve env (resolve env output) \<in> unwritable s then files s
                    else (files s)(resolve env (resolve env output) \<mapsto> result)))
      | _ \<Rightarrow> files s)"
  by (cases style)
     (simp_all add: complete_def styles_def run.simps(1) run_readFile
               cong: option.case_cong sum.case_cong if_cong)

lemma complete_frame:
  "listing (complete env (scripts env src output s)) = listing s \<and>
   unwritable (complete env (scripts env src output s)) = unwritable s \<and>
   listing (complete env (styles env style output s)) = listing s \<and>
   unwritable (complete env (styles env style output s)) = unwritable s"
  by (simp add: complete_def scripts_def styles_def run_frame Let_def
           split: sum.splits js_value.splits)

lemma md5_files: "files s = files t \<Longrightarrow> md5 env s p = md5 env t p"
  by (simp add: md5_def cong: option.case_cong)

text \<open>
  The first run leaves the sources as they were whenever the destination is not one of
  them.
\<close>

lemma sources_kept:
  assumes "resolve env (resolve env output) \<notin> set (sourcePaths env s src)"
  shows "\<forall>p\<in>set (sourcePaths env s src).
           files (complete env (scripts env src output s)) p = files s p"
  using assms
  by (auto simp: complete_scripts split: sum.splits)

text \<open>
  Claim C7. Run \<open>scripts\<close> of src/src/letsPack.js on a state \<open>s\<close> with all its callbacks, and
  run it again with the same source and destination on a state \<open>t\<close> that has the file system
  which the first run left. If the inputs are the same, that is, the directory lists the
  same entries, the files that \<open>scripts\<close> reads have the same contents as at the first run
  and the same paths can be written, then the second run leaves the file system that the
  first run left, and the hash of the destination is the same. The same holds for \<open>styles\<close>
  and the style sheet it reads. The minifier, the style transform and the digest are
  functions of their arguments.
\<close>

theorem bundling_idempotent:
  "(files t = files (complete env (scripts env src output s)) \<and>
    unwritable t = unwritable s \<and> listing t = listing s \<and>
    (\<forall>p\<in>set (sourcePaths env s src). files t p = files s p) \<longrightarrow>
      files (complete env (scripts env src output t))
        = files (complete env (scripts env src output s)) \<and>
      md5 env (complete env (scripts env src output t)) (Some output)
        = md5 env (complete env (scripts env src output s)) (Some output)) \<and>
   (files t' = files (complete env (styles env style output s)) \<and>
    unwritable t' = unwritable s \<and>
    (\<forall>entry. style = Str entry \<longrightarrow>
        files t' (resolve env (resolve env entry))
          = files s (resolve env (resolve env entry))) \<longrightarrow>
      files (complete env (styles env style output t'))
        = files (complete env (styles env style output s)) \<and>
      md5 env (complete env (styles env style output t')) (Some output)
        = md5 env (complete env (styles env style output s)) (Some output))"
proof -
  have a: "files (complete env (scripts env src output t)) = files t"
    if f: "files t = files (complete env (scripts env src output s))"
      and u: "unwritable t = unwritable s" and l: "listing t = listing s"
      and h: "\<forall>p\<in>set (sourcePaths env s src). files t p = files s p"
  proof -
    have "sourcePaths env t src = sourcePaths env s src"
      using l by (rule sourcePaths_cong)
    with h l have rs: "readSources env t src = readSources env s src"
      by (intro readSources_cong) simp_all
    show ?thesis
      unfolding complete_scripts [of env src "output" t] rs u
      unfolding f complete_scripts [of env src "output" s]
      by (simp split: sum.splits)
  qed
  have b: "files (complete env (styles env style output t')) = files t'"
    if f: "files t' = files (complete env (styles env style output s))"
      and u: "unwritable t' = unwritable s"
      and h: "\<forall>entry. style = Str entry \<longrightarrow>
        files t' (resolve env (resolve env entry)) = files s (resolve env (resolve env entry))"
  proof (cases style)
    case (Str entry)
    have rd: "files t' (resolve env (resolve env entry))
        = files s (resolve env (resolve env entry))"
      using h Str by simp
    have f': "files t' = files (complete env (styles env (Str entry) output s))"
      using f Str by simp
    have "files (complete env (styles env (Str entry) output t')) = files t'"
      unfolding complete_styles [of env "Str entry" "output" t'] js_value.case rd u
      unfolding f' complete_styles [of env "Str entry" "output" s] js_value.case
      by (simp split: sum.splits option.splits)
    then show ?thesis
      by (simp add: Str)
  qed (simp_all add: complete_styles)
  have "files (complete env (scripts env src output t)) = files t \<Longrightarrow>
      md5 env (complete env (scripts env src output t)) (Some output) = md5 env t (Some output)"
    by (rule md5_files)
  moreover have "files (complete env (styles env style output t')) = files t' \<Longrightarrow>
      md5 env (complete env (styles env style output t')) (Some output)
        = md5 env t' (Some output)"
    by (rule md5_files)
  moreover have "files t = files (complete env (scripts env src output s)) \<Longrightarrow>
      md5 env t (Some output) = md5 env (complete env (scripts env src output s)) (Some output)"
    by (rule md5_files)
  moreover have "files t' = files (complete env (styles env style output s)) \<Longrightarrow>
      md5 env t' (Some output) = md5 env (complete env (styles env style output s)) (Some output)"
    by (rule md5_files)
  ultimately show ?thesis
    using a b by auto
qed

text \<open>The directory \<open>src\<close> and the style sheet \<open>css/site.css\<close> of a new instance.\<close>

lemma sample_scripts_files:
  "files (complete sample_env (scripts sample_env (Str ''src'') ''dist/app.min.js'' new_instance))
     = (files new_instance)(''/work/dist/app.min.js'' \<mapsto> ''ab'')"
proof -
  have "readSources sample_env new_instance (Str ''src'')
      = Inr [(''/work/src/a.js'', ''a''), (''/work/src/b.js'', ''b'')]"
    by (simp add: readSources_def readDirectoryFiles_def readdirSync_def readFileSync_def
          sample_env_def sample_resolve_def new_instance_def)
  moreover have "minify sample_env [(''/work/src/a.js'', ''a''), (''/work/src/b.js'', ''b'')]
      = Inr ''ab''"
    by (simp add: sample_env_def)
  moreover have "resolve sample_env (resolve sample_env ''dist/app.min.js'')
      = ''/work/dist/app.min.js'' \<and> unwritable new_instance = {}"
    by (simp add: sample_env_def sample_resolve_def new_instance_def)
  ultimately show ?thesis
    by (simp add: complete_scripts)
qed

lemma sample_styles_files:
  "files (complete sample_env
       (styles sample_env (Str ''css/site.css'') ''dist/app.min.css'' new_instance))
     = (files new_instance)(''/work/dist/app.min.css'' \<mapsto> ''b'')"
proof -
  have "files new_instance (resolve sample_env (resolve sample_env ''css/site.css'')) = Some ''b''"
    by (simp add: sample_env_def sample_resolve_def new_instance_def)
  moreover have "postcss sample_env ''b'' (resolve sample_env ''css/site.css'')
      (resolve sample_env ''dist/app.min.css'') = Inr ''b''"
    by (simp add: sample_env_def)
  moreover have "resolve sample_env (resolve sample_env ''dist/app.min.css'')
      = ''/work/dist/app.min.css'' \<and> unwritable new_instance = {}"
    by (simp add: sample_env_def sample_resolve_def new_instance_def)
  ultimately show ?thesis
    by (simp add: complete_styles)
qed

theorem bundling_idempotent_witness:
  "unwritable (complete sample_env
       (scripts sample_env (Str ''src'') ''dist/app.min.js'' new_instance))
     = unwritable new_instance \<and>
   listing (complete sample_env
       (scripts sample_env (Str ''src'') ''dist/app.min.js'' new_instance))
     = listing new_instance \<and>
   sourcePaths sample_env new_instance (Str ''src'') = [''/work/src/a.js'', ''/work/src/b.js''] \<and>
   files (complete sample_env
       (scripts sample_env (Str ''src'') ''dist/app.min.js'' new_instance)) ''/work/src/a.js''
     = files new_instance ''/work/src/a.js'' \<and>
   files (complete sample_env
       (scripts sample_env (Str ''src'') ''dist/app.min.js'' new_instance)) ''/work/src/b.js''
     = files new_instance ''/work/src/b.js'' \<and>
   files (complete sample_env
       (scripts sample_env (Str ''src'') ''dist/app.min.js'' new_instance))
     ''/work/dist/app.min.js'' = Some ''ab'' \<and>
   files (complete sample_env (scripts sample_env (Str ''src'') ''dist/app.min.js''
       (complete sample_env
          (scripts sample_env (Str ''src'') ''dist/app.min.js'' new_instance))))
     = files (complete sample_env
          (scripts sample_env (Str ''src'') ''dist/app.min.js'' new_instance)) \<and>
   unwritable (complete sample_env
       (styles sample_env (Str ''css/site.css'') ''dist/app.min.css'' new_instance))
     = unwritable new_instance \<and>
   resolve sample_env (resolve sample_env ''css/site.css'') = ''/work/css/site.css'' \<and>
   files (complete sample_env
       (styles sample_env (Str ''css/site.css'') ''dist/app.min.css'' new_instance))
     ''/work/css/site.css'' = files new_instance ''/work/css/site.css'' \<and>
   files (complete sample_env
       (styles sample_env (Str ''css/site.css'') ''dist/app.min.css'' new_instance))
     ''/work/dist/app.min.css'' = Some ''b'' \<and>
   files (complete sample_env (styles sample_env (Str ''css/site.css'') ''dist/app.min.css''
       (complete sample_env
          (styles sample_env (Str ''css/site.css'') ''dist/app.min.css'' new_instance))))
     = files (complete sample_env
          (styles sample_env (Str ''css/site.css'') ''dist/app.min.css'' new_instance))"
proof -
  let ?s2 = "complete sample_env
       (scripts sample_env (Str ''src'') ''dist/app.min.js'' new_instance)"
  let ?t2 = "complete sample_env
       (styles sample_env (Str ''css/site.css'') ''dist/app.min.css'' new_instance)"
  have fr: "unwritable ?s2 = unwritable new_instance \<and> listing ?s2 = listing new_instance \<and>
      unwritable ?t2 = unwritable new_instance"
    using complete_frame [of sample_env "Str ''src''" "''dist/app.min.js''" new_instance]
      complete_frame [of sample_env _ "''dist/app.min.css''" new_instance "Str ''css/site.css''"]
    by simp
  have src: "sourcePaths sample_env new_instance (Str ''src'')
      = [''/work/src/a.js'', ''/work/src/b.js'']"
    by (simp add: sourcePaths_def sample_env_def sample_resolve_def new_instance_def)
  have h1: "\<forall>p\<in>set (sourcePaths sample_env new_instance (Str ''src'')).
      files ?s2 p = files new_instance p"
    by (simp add: src sample_scripts_files)
  have css: "resolve sample_env (resolve sample_env ''css/site.css'') = ''/work/css/site.css''"
    by (simp add: sample_env_def sample_resolve_def)
  then have h2: "\<forall>entry. Str ''css/site.css'' = Str entry \<longrightarrow>
      files ?t2 (resolve sample_env (resolve sample_env entry))
        = files new_instance (resolve sample_env (resolve sample_env entry))"
    by (simp add: sample_styles_files)
  have w: "files ?s2 ''/work/dist/app.min.js'' = Some ''ab'' \<and>
     files ?t2 ''/work/dist/app.min.css'' = Some ''b''"
    by (simp add: sample_scripts_files sample_styles_files)
  have r: "files ?s2 ''/work/src/a.js'' = files new_instance ''/work/src/a.js'' \<and>
     files ?s2 ''/work/src/b.js'' = files new_instance ''/work/src/b.js'' \<and>
     files ?t2 ''/work/css/site.css'' = files new_instance ''/work/css/site.css''"
    by (simp add: sample_scripts_files sample_styles_files)
  from fr h1 h2 w r src css
    bundling_idempotent [of ?s2 sample_env "Str ''src''" "''dist/app.min.js''" new_instance
      ?t2 "Str ''css/site.css''"]
    bundling_idempotent [of ?s2 sample_env "Str ''src''" "''dist/app.min.css''" new_instance
      ?t2 "Str ''css/site.css''"]
  show ?thesis
    by blast
qed

end
